theory Spec2Isabelle
  imports Main "HOL-Library.Signed_Division" "HOL-Library.AList"
begin

text \<open>
  A shallow embedding of \<^verbatim>\<open>types/types.go\<close> of longhorn-manager: the name transforms,
  the label sets, the checksum names, the option validators and the validation of disk
  annotations, each function under the name it has in the source. Functions of other
  packages that the file calls are parameters of the functions that call them, except
  the few of Go's \<^verbatim>\<open>strings\<close>, \<^verbatim>\<open>strconv\<close> and \<^verbatim>\<open>regexp\<close> packages whose behaviour the
  properties depend on, which are defined here. The definitions come first, the
  properties after them.
\<close>

section \<open>Constants of package types\<close>

definition LonghornLabelKeyPrefix :: string where
  "LonghornLabelKeyPrefix = ''longhorn.io''"

definition LonghornLabelEngineImage :: string where
  "LonghornLabelEngineImage = ''engine-image''"

definition LonghornLabelInstanceManager :: string where
  "LonghornLabelInstanceManager = ''instance-manager''"

definition LonghornLabelNode :: string where
  "LonghornLabelNode = ''node''"

definition LonghornLabelDiskUUID :: string where
  "LonghornLabelDiskUUID = ''disk-uuid''"

definition LonghornLabelInstanceManagerType :: string where
  "LonghornLabelInstanceManagerType = ''instance-manager-type''"

definition LonghornLabelInstanceManagerImage :: string where
  "LonghornLabelInstanceManagerImage = ''instance-manager-image''"

definition LonghornLabelVolume :: string where
  "LonghornLabelVolume = ''longhornvolume''"

definition LonghornLabelShareManager :: string where
  "LonghornLabelShareManager = ''share-manager''"

definition LonghornLabelShareManagerImage :: string where
  "LonghornLabelShareManagerImage = ''share-manager-image''"

definition LonghornLabelBackingImage :: string where
  "LonghornLabelBackingImage = ''backing-image''"

definition LonghornLabelBackingImageManager :: string where
  "LonghornLabelBackingImageManager = ''backing-image-manager''"

definition LonghornLabelManagedBy :: string where
  "LonghornLabelManagedBy = ''managed-by''"

definition LonghornLabelCronJobTask :: string where
  "LonghornLabelCronJobTask = ''job-task''"

definition LonghornLabelBackingImageDataSource :: string where
  "LonghornLabelBackingImageDataSource = ''backing-image-data-source''"

definition KubernetesFailureDomainRegionLabelKey :: string where
  "KubernetesFailureDomainRegionLabelKey = ''failure-domain.beta.kubernetes.io/region''"

definition KubernetesFailureDomainZoneLabelKey :: string where
  "KubernetesFailureDomainZoneLabelKey = ''failure-domain.beta.kubernetes.io/zone''"

definition KubernetesTopologyRegionLabelKey :: string where
  "KubernetesTopologyRegionLabelKey = ''topology.kubernetes.io/region''"

definition KubernetesTopologyZoneLabelKey :: string where
  "KubernetesTopologyZoneLabelKey = ''topology.kubernetes.io/zone''"

definition DefaultDiskPrefix :: string where
  "DefaultDiskPrefix = ''default-disk-''"

definition ControlPlaneName :: string where
  "ControlPlaneName = ''longhorn-manager''"

definition ImageChecksumNameLength :: nat where
  "ImageChecksumNameLength = 8"

definition engineImagePrefix :: string where
  "engineImagePrefix = ''ei-''"

definition instanceManagerImagePrefix :: string where
  "instanceManagerImagePrefix = ''imi-''"

definition shareManagerImagePrefix :: string where
  "shareManagerImagePrefix = ''smi-''"

section \<open>The functions of Go's strings package that the file calls\<close>

text \<open>Go strings are byte sequences; \<^typ>\<open>string\<close> is a list of bytes.\<close>

definition strings_HasPrefix :: "string \<Rightarrow> string \<Rightarrow> bool" where
  "strings_HasPrefix s pre = (take (length pre) s = pre)"

text \<open>\<^verbatim>\<open>strings.TrimPrefix\<close> removes the prefix once when it is there and returns
  the string unchanged otherwise.\<close>

definition strings_TrimPrefix :: "string \<Rightarrow> string \<Rightarrow> string" where
  "strings_TrimPrefix s pre = (if strings_HasPrefix s pre then drop (length pre) s else s)"

text \<open>\<^verbatim>\<open>strings.Contains\<close>: the substring occurs at some offset.\<close>

fun strings_Contains :: "string \<Rightarrow> string \<Rightarrow> bool" where
  "strings_Contains [] substr = (substr = [])"
| "strings_Contains (c # cs) substr =
     (strings_HasPrefix (c # cs) substr \<or> strings_Contains cs substr)"

text \<open>\<^verbatim>\<open>strings.Replace(s, old, new, -1)\<close> for a one-byte \<^verbatim>\<open>old\<close>, the only
  way the file calls it.\<close>

definition strings_ReplaceAll1 :: "string \<Rightarrow> char \<Rightarrow> string \<Rightarrow> string" where
  "strings_ReplaceAll1 s old new = concat (map (\<lambda>c. if c = old then new else [c]) s)"

section \<open>Errors\<close>

text \<open>
  \<^verbatim>\<open>type NotFoundError struct { Name string }\<close> with the method
  \<^verbatim>\<open>Error() = fmt.Sprintf("cannot find %v", e.Name)\<close>; the verb \<^verbatim>\<open>%v\<close> prints a
  string as it is.
\<close>

datatype NotFoundError = NotFoundError string

fun NotFoundError_Error :: "NotFoundError \<Rightarrow> string" where
  "NotFoundError_Error (NotFoundError name) = ''cannot find '' @ name"

text \<open>
  Go's \<^verbatim>\<open>error\<close> is an interface with the single method \<^verbatim>\<open>Error() string\<close>.
  The two classifiers receive a value of any type \<open>'e\<close> implementing it; the method is
  passed with the value, and \<^verbatim>\<open>err.Error()\<close> is \<open>Error_of err\<close>.
\<close>

definition ErrorIsNotFound :: "('e \<Rightarrow> string) \<Rightarrow> 'e \<Rightarrow> bool" where
  "ErrorIsNotFound Error_of err = strings_Contains (Error_of err) ''cannot find''"

definition ErrorAlreadyExists :: "('e \<Rightarrow> string) \<Rightarrow> 'e \<Rightarrow> bool" where
  "ErrorAlreadyExists Error_of err = strings_Contains (Error_of err) ''already exists''"

section \<open>Name transforms\<close>

definition GetShareManagerPodNameFromShareManagerName :: "string \<Rightarrow> string" where
  "GetShareManagerPodNameFromShareManagerName smName =
     LonghornLabelShareManager @ ''-'' @ smName"

definition GetShareManagerNameFromShareManagerPodName :: "string \<Rightarrow> string" where
  "GetShareManagerNameFromShareManagerPodName podName =
     strings_TrimPrefix podName (LonghornLabelShareManager @ ''-'')"

definition GetDaemonSetNameFromEngineImageName :: "string \<Rightarrow> string" where
  "GetDaemonSetNameFromEngineImageName engineImageName = ''engine-image-'' @ engineImageName"

definition GetEngineImageNameFromDaemonSetName :: "string \<Rightarrow> string" where
  "GetEngineImageNameFromDaemonSetName dsName = strings_TrimPrefix dsName ''engine-image-''"

definition GetImageCanonicalName :: "string \<Rightarrow> string" where
  "GetImageCanonicalName img =
     strings_ReplaceAll1 (strings_ReplaceAll1 img (CHR '':'') ''-'') (CHR ''/'') ''-''"

section \<open>Region and zone\<close>

text \<open>A Go \<^verbatim>\<open>map[string]string\<close> is a partial function from keys to values;
  \<^verbatim>\<open>v, ok := labels[k]\<close> is the lookup \<open>labels k\<close>.\<close>

type_synonym labels = "string \<rightharpoonup> string"

definition GetRegionAndZone :: "labels \<Rightarrow> bool \<Rightarrow> string \<times> string" where
  "GetRegionAndZone labels isUsingTopologyLabels =
     (if isUsingTopologyLabels then
        (let region = (case labels KubernetesTopologyRegionLabelKey of
                         Some v \<Rightarrow> v | None \<Rightarrow> '''');
             zone = (case labels KubernetesTopologyZoneLabelKey of
                       Some v \<Rightarrow> v | None \<Rightarrow> '''')
         in (region, zone))
      else
        (let region = (case labels KubernetesFailureDomainRegionLabelKey of
                         Some v \<Rightarrow> v | None \<Rightarrow> '''');
             zone = (case labels KubernetesFailureDomainZoneLabelKey of
                       Some v \<Rightarrow> v | None \<Rightarrow> '''')
         in (region, zone)))"

section \<open>Machine integers\<close>

text \<open>
  Go's \<^verbatim>\<open>int64\<close>, and \<^verbatim>\<open>int\<close> on the 64-bit platforms the manager is built for, are
  modelled as integers within \<open>-2^63 \<dots> 2^63 - 1\<close>. Addition and multiplication wrap
  around in two's complement; \<open>wrap64\<close> is that wrap-around written out. Go's \<^verbatim>\<open>/\<close>
  truncates towards zero, which is \<open>sdiv\<close>.
\<close>

type_synonym int64 = int

definition wrap64 :: "int \<Rightarrow> int64" where
  "wrap64 x = (x + 2 ^ 63) mod 2 ^ 64 - 2 ^ 63"

definition is_int64 :: "int \<Rightarrow> bool" where
  "is_int64 x = (- (2 ^ 63) \<le> x \<and> x < 2 ^ 63)"

section \<open>Disk specifications\<close>

text \<open>
  Modelled from the spec: the struct types \<^verbatim>\<open>util.DiskInfo\<close> and \<^verbatim>\<open>DiskSpec\<close>, which
  are declared outside this file. Their fields are the ones the file reads and writes,
  with the types the specification gives (section 3 of it; \<^verbatim>\<open>Name\<close> is the field that
  \<^verbatim>\<open>DiskSpecWithName\<close> adds, as the source declares it).
  \<^verbatim>\<open>DiskSpecWithName\<close> embeds \<^verbatim>\<open>DiskSpec\<close>, so it is the extension of the record, and
  \<^verbatim>\<open>disk.DiskSpec\<close> is \<open>DiskSpec.truncate disk\<close>.
\<close>

record DiskInfo =
  Fsid :: string
  Path :: string
  StorageMaximum :: int64
  StorageAvailable :: int64

record DiskSpec =
  Path :: string
  AllowScheduling :: bool
  EvictionRequested :: bool
  StorageReserved :: int64
  Tags :: "string list"

record DiskSpecWithName = DiskSpec +
  Name :: string

text \<open>
  One constructor for each way the file builds an error, carrying the arguments of its
  format string; \<open>External\<close> is an error value made outside the file (by the JSON
  decoder, the filesystem query, the tag check), known by its text.
\<close>

datatype error =
    External string
  | Wrapf error string
    \<comment> \<open>\<^verbatim>\<open>errors.Wrapf(err, msg)\<close>\<close>
  | InvalidDisk DiskSpecWithName
    \<comment> \<open>\<^verbatim>\<open>"invalid disk %+v"\<close>\<close>
  | DuplicateDiskPath string
    \<comment> \<open>\<^verbatim>\<open>"duplicate disk path %v"\<close>\<close>
  | SameFilesystem string string string
    \<comment> \<open>\<^verbatim>\<open>"the disk %v is the samefile system with %v, fsid %v"\<close>\<close>
  | InvalidStorageReserved string
    \<comment> \<open>\<^verbatim>\<open>"the storageReserved setting of disk %v is not valid, ..."\<close>\<close>
  | DuplicateDiskName string
    \<comment> \<open>\<^verbatim>\<open>"the disk name %v has duplicated"\<close>\<close>
  | ReplicaCountOutOfRange
    \<comment> \<open>\<^verbatim>\<open>"replica count value must between 1 to 20"\<close>\<close>
  | ErrSyntax
  | ErrRange
  | NumError string string error
    \<comment> \<open>\<^verbatim>\<open>&strconv.NumError{Func, Num, Err}\<close>\<close>
  | EngineManagerCPUNotInt string error
    \<comment> \<open>\<^verbatim>\<open>"guaranteed/requested engine manager CPU value %v is not int: %v"\<close>\<close>
  | ReplicaManagerCPUNotInt string error
    \<comment> \<open>\<^verbatim>\<open>"guaranteed/requested replica manager CPU value %v is not int: %v"\<close>\<close>
  | CPUSumOutOfRange int64 int64
    \<comment> \<open>\<^verbatim>\<open>"the requested engine manager CPU and replica manager CPU are %v%% and %v%% ..."\<close>\<close>

text \<open>
  A Go \<^verbatim>\<open>map[string]DiskSpec\<close> that the code ranges over is an association list with
  distinct keys; \<^verbatim>\<open>m[k] = v\<close> is \<open>AList.update k v m\<close> and \<^verbatim>\<open>_, ok := m[k]\<close> is
  \<open>map_of m k\<close>. The order of the list is the order of insertion, which Go does not
  show; no statement below depends on it.
\<close>

type_synonym disk_map = "(string \<times> DiskSpec) list"

text \<open>
  The collaborators are parameters. \<^verbatim>\<open>util.GetDiskInfo\<close> and
  \<^verbatim>\<open>util.CreateDiskPathReplicaSubdirectory\<close> act on the filesystem: they take the
  state \<open>'w\<close> of the world and return the next one with their result.
  \<^verbatim>\<open>util.ValidateTags\<close> and \<^verbatim>\<open>json.Unmarshal\<close> into a \<^verbatim>\<open>[]DiskSpecWithName\<close> are
  functions of their argument.
\<close>

type_synonym 'w GetDiskInfo_fn = "'w \<Rightarrow> string \<Rightarrow> (error + DiskInfo) \<times> 'w"

type_synonym ValidateTags_fn = "string list \<Rightarrow> error + string list"

type_synonym json_Unmarshal_fn = "string \<Rightarrow> error + DiskSpecWithName list"

definition UnmarshalToDisks :: "json_Unmarshal_fn \<Rightarrow> string \<Rightarrow> error + DiskSpecWithName list" where
  "UnmarshalToDisks json_Unmarshal s =
     (case json_Unmarshal s of Inl err \<Rightarrow> Inl err | Inr ret \<Rightarrow> Inr ret)"

text \<open>The body of the loop of \<^verbatim>\<open>CreateDisksFromAnnotation\<close>, on the two maps
  \<^verbatim>\<open>validDisks\<close> and \<^verbatim>\<open>existFsid\<close>; every \<^verbatim>\<open>return nil, err\<close> is an \<open>Inl\<close>.\<close>

definition CreateDisks_body ::
  "'w GetDiskInfo_fn \<Rightarrow> ValidateTags_fn \<Rightarrow> disk_map \<times> (string \<rightharpoonup> string)
     \<Rightarrow> DiskSpecWithName \<Rightarrow> 'w \<Rightarrow> (error + disk_map \<times> (string \<rightharpoonup> string)) \<times> 'w"
where
  "CreateDisks_body GetDiskInfo ValidateTags st disk w =
     (let validDisks = fst st; existFsid = snd st in
      if DiskSpec.Path disk = '''' then (Inl (InvalidDisk disk), w)
      else
        (case GetDiskInfo w (DiskSpec.Path disk) of
           (Inl err, w1) \<Rightarrow> (Inl err, w1)
         | (Inr diskInfo, w1) \<Rightarrow>
             if list_ex (\<lambda>vDisk. DiskSpec.Path vDisk = DiskSpec.Path disk) (map snd validDisks)
             then (Inl (DuplicateDiskPath (DiskSpec.Path disk)), w1)
             else
               (let name = (if Name disk = '''' then DefaultDiskPrefix @ Fsid diskInfo
                            else Name disk)
                in case existFsid (Fsid diskInfo) of
                     Some other \<Rightarrow>
                       (Inl (SameFilesystem (DiskSpec.Path disk) other (Fsid diskInfo)), w1)
                   | None \<Rightarrow>
                       (let existFsid1 = existFsid(Fsid diskInfo \<mapsto> DiskSpec.Path disk) in
                        if StorageReserved disk < 0
                           \<or> StorageReserved disk > StorageMaximum diskInfo
                        then (Inl (InvalidStorageReserved (DiskSpec.Path disk)), w1)
                        else
                          (case ValidateTags (Tags disk) of
                             Inl err \<Rightarrow> (Inl err, w1)
                           | Inr tags \<Rightarrow>
                               if map_of validDisks name \<noteq> None
                               then (Inl (DuplicateDiskName name), w1)
                               else
                                 (Inr (AList.update name
                                         (DiskSpec.truncate (disk\<lparr>Tags := tags\<rparr>))
                                         validDisks,
                                       existFsid1), w1))))))"

fun CreateDisks_loop ::
  "'w GetDiskInfo_fn \<Rightarrow> ValidateTags_fn \<Rightarrow> disk_map \<times> (string \<rightharpoonup> string)
     \<Rightarrow> DiskSpecWithName list \<Rightarrow> 'w \<Rightarrow> (error + disk_map \<times> (string \<rightharpoonup> string)) \<times> 'w"
where
  "CreateDisks_loop GetDiskInfo ValidateTags st [] w = (Inr st, w)"
| "CreateDisks_loop GetDiskInfo ValidateTags st (disk # disks) w =
     (case CreateDisks_body GetDiskInfo ValidateTags st disk w of
        (Inl err, w1) \<Rightarrow> (Inl err, w1)
      | (Inr st1, w1) \<Rightarrow> CreateDisks_loop GetDiskInfo ValidateTags st1 disks w1)"

definition CreateDisksFromAnnotation ::
  "json_Unmarshal_fn \<Rightarrow> 'w GetDiskInfo_fn \<Rightarrow> ValidateTags_fn \<Rightarrow> string \<Rightarrow> 'w
     \<Rightarrow> (error + disk_map) \<times> 'w"
where
  "CreateDisksFromAnnotation json_Unmarshal GetDiskInfo ValidateTags annotation w =
     (case UnmarshalToDisks json_Unmarshal annotation of
        Inl err \<Rightarrow> (Inl (Wrapf err ''failed to unmarshal the default disks annotation''), w)
      | Inr disks \<Rightarrow>
          (case CreateDisks_loop GetDiskInfo ValidateTags ([], Map.empty) disks w of
             (Inl err, w1) \<Rightarrow> (Inl err, w1)
           | (Inr st, w1) \<Rightarrow> (Inr (fst st), w1)))"

text \<open>\<^verbatim>\<open>CreateDefaultDisk\<close>: the directory is created first, then the filesystem is
  queried; the product \<^verbatim>\<open>StorageMaximum * 30\<close> is an \<^verbatim>\<open>int64\<close> product.\<close>

definition CreateDefaultDisk ::
  "('w \<Rightarrow> string \<Rightarrow> error option \<times> 'w) \<Rightarrow> 'w GetDiskInfo_fn \<Rightarrow> string \<Rightarrow> 'w
     \<Rightarrow> (error + disk_map) \<times> 'w"
where
  "CreateDefaultDisk CreateDiskPathReplicaSubdirectory GetDiskInfo dataPath w =
     (case CreateDiskPathReplicaSubdirectory w dataPath of
        (Some err, w1) \<Rightarrow> (Inl err, w1)
      | (None, w1) \<Rightarrow>
          (case GetDiskInfo w1 dataPath of
             (Inl err, w2) \<Rightarrow> (Inl err, w2)
           | (Inr diskInfo, w2) \<Rightarrow>
               (Inr [(DefaultDiskPrefix @ Fsid diskInfo,
                      \<lparr>DiskSpec.Path = DiskInfo.Path diskInfo,
                       AllowScheduling = True,
                       EvictionRequested = False,
                       StorageReserved = wrap64 (StorageMaximum diskInfo * 30) sdiv 100,
                       Tags = []\<rparr>)], w2)))"

section \<open>Checksum names\<close>

text \<open>
  \<^verbatim>\<open>strings.TrimSpace\<close> removes the leading and trailing white space that Unicode
  defines. On the bytes of a string these are the UTF-8 encodings of the white-space code
  points: the six ASCII ones, U+0085, U+00A0, U+1680, U+2000 to U+200A, U+2028, U+2029,
  U+202F, U+205F and U+3000.
\<close>

definition whiteSpace :: "string list" where
  "whiteSpace =
     [[CHR 0x09], [CHR 0x0A], [CHR 0x0B], [CHR 0x0C], [CHR 0x0D], [CHR 0x20],
      [CHR 0xC2, CHR 0x85], [CHR 0xC2, CHR 0xA0], [CHR 0xE1, CHR 0x9A, CHR 0x80],
      [CHR 0xE2, CHR 0x80, CHR 0x80], [CHR 0xE2, CHR 0x80, CHR 0x81],
      [CHR 0xE2, CHR 0x80, CHR 0x82], [CHR 0xE2, CHR 0x80, CHR 0x83],
      [CHR 0xE2, CHR 0x80, CHR 0x84], [CHR 0xE2, CHR 0x80, CHR 0x85],
      [CHR 0xE2, CHR 0x80, CHR 0x86], [CHR 0xE2, CHR 0x80, CHR 0x87],
      [CHR 0xE2, CHR 0x80, CHR 0x88], [CHR 0xE2, CHR 0x80, CHR 0x89],
      [CHR 0xE2, CHR 0x80, CHR 0x8A], [CHR 0xE2, CHR 0x80, CHR 0xA8],
      [CHR 0xE2, CHR 0x80, CHR 0xA9], [CHR 0xE2, CHR 0x80, CHR 0xAF],
      [CHR 0xE2, CHR 0x81, CHR 0x9F], [CHR 0xE3, CHR 0x80, CHR 0x80]]"

text \<open>The length of the white space a string starts with: 0 when it starts with none.\<close>

definition leadingSpace :: "string list \<Rightarrow> string \<Rightarrow> nat" where
  "leadingSpace spaces s =
     (case find (\<lambda>sp. strings_HasPrefix s sp) spaces of None \<Rightarrow> 0 | Some sp \<Rightarrow> length sp)"

function trimLeft :: "string list \<Rightarrow> string \<Rightarrow> string" where
  "trimLeft spaces s =
     (if leadingSpace spaces s = 0 \<or> s = [] then s
      else trimLeft spaces (drop (leadingSpace spaces s) s))"
  by pat_completeness auto
termination
  by (relation "measure (\<lambda>(spaces, s). length s)") auto

definition strings_TrimSpace :: "string \<Rightarrow> string" where
  "strings_TrimSpace s =
     rev (trimLeft (map rev whiteSpace) (rev (trimLeft whiteSpace s)))"

text \<open>
  \<^verbatim>\<open>util.GetStringChecksum\<close> is a parameter. The slice \<^verbatim>\<open>[:ImageChecksumNameLength]\<close>
  panics when the checksum is shorter than that; the panic is the result \<open>None\<close>.
\<close>

definition checksumHead :: "(string \<Rightarrow> string) \<Rightarrow> string \<Rightarrow> string option" where
  "checksumHead GetStringChecksum img =
     (let sum = GetStringChecksum (strings_TrimSpace img) in
      if length sum < ImageChecksumNameLength then None
      else Some (take ImageChecksumNameLength sum))"

definition GetEngineImageChecksumName :: "(string \<Rightarrow> string) \<Rightarrow> string \<Rightarrow> string option" where
  "GetEngineImageChecksumName GetStringChecksum img =
     map_option (\<lambda>head. engineImagePrefix @ head) (checksumHead GetStringChecksum img)"

definition GetInstanceManagerImageChecksumName ::
  "(string \<Rightarrow> string) \<Rightarrow> string \<Rightarrow> string option" where
  "GetInstanceManagerImageChecksumName GetStringChecksum img =
     map_option (\<lambda>head. instanceManagerImagePrefix @ head) (checksumHead GetStringChecksum img)"

definition GetShareManagerImageChecksumName ::
  "(string \<Rightarrow> string) \<Rightarrow> string \<Rightarrow> string option" where
  "GetShareManagerImageChecksumName GetStringChecksum img =
     map_option (\<lambda>head. shareManagerImagePrefix @ head) (checksumHead GetStringChecksum img)"

text \<open>
  \<^verbatim>\<open>ValidateEngineImageChecksumName\<close> matches the name against the pattern
  \<^verbatim>\<open>^ei-[a-fA-F0-9]{8}$\<close>, which \<^verbatim>\<open>fmt.Sprintf\<close> builds from the prefix and the length.
  The pattern is a sequence of items: the two anchors (Go's \<^verbatim>\<open>$\<close> is the end of the
  text), the bytes of the prefix, which are no metacharacters, and the character class
  repeated. \<^verbatim>\<open>regexp.MatchString\<close> looks for a match starting at any offset.
\<close>

datatype regex_item = BeginText | EndText | Literal char | CharClass string

fun matchItems :: "regex_item list \<Rightarrow> bool \<Rightarrow> string \<Rightarrow> bool" where
  "matchItems [] atBegin s = True"
| "matchItems (BeginText # items) atBegin s = (atBegin \<and> matchItems items atBegin s)"
| "matchItems (EndText # items) atBegin s = (s = [] \<and> matchItems items atBegin s)"
| "matchItems (Literal c # items) atBegin s =
     (case s of [] \<Rightarrow> False | x # xs \<Rightarrow> x = c \<and> matchItems items False xs)"
| "matchItems (CharClass cs # items) atBegin s =
     (case s of [] \<Rightarrow> False | x # xs \<Rightarrow> x \<in> set cs \<and> matchItems items False xs)"

fun matchAnywhere :: "regex_item list \<Rightarrow> bool \<Rightarrow> string \<Rightarrow> bool" where
  "matchAnywhere items atBegin [] = matchItems items atBegin []"
| "matchAnywhere items atBegin (x # xs) =
     (matchItems items atBegin (x # xs) \<or> matchAnywhere items False xs)"

definition regexp_MatchString :: "regex_item list \<Rightarrow> string \<Rightarrow> bool" where
  "regexp_MatchString pattern s = matchAnywhere pattern True s"

definition hexDigits :: string where
  "hexDigits = ''abcdefABCDEF0123456789''"

definition checksumNamePattern :: "regex_item list" where
  "checksumNamePattern =
     [BeginText] @ map Literal engineImagePrefix
       @ replicate ImageChecksumNameLength (CharClass hexDigits) @ [EndText]"

definition ValidateEngineImageChecksumName :: "string \<Rightarrow> bool" where
  "ValidateEngineImageChecksumName name = regexp_MatchString checksumNamePattern name"

section \<open>Labels\<close>

text \<open>
  \<^verbatim>\<open>InstanceManagerType\<close> and \<^verbatim>\<open>RecurringJobType\<close> are string types declared outside
  the file, and \<^verbatim>\<open>RecurringJob\<close> a struct of which the file reads the field \<^verbatim>\<open>Task\<close>
  only; the job the two cron-job functions receive is the struct their pointer argument
  points to. A label function that calls a checksum name panics when that one does.
\<close>

type_synonym InstanceManagerType = string

record RecurringJob =
  Task :: string

definition GetLonghornLabelKey :: "string \<Rightarrow> string" where
  "GetLonghornLabelKey name = LonghornLabelKeyPrefix @ ''/'' @ name"

definition GetBaseLabelsForSystemManagedComponent :: labels where
  "GetBaseLabelsForSystemManagedComponent =
     [GetLonghornLabelKey LonghornLabelManagedBy \<mapsto> ControlPlaneName]"

definition GetLonghornLabelComponentKey :: string where
  "GetLonghornLabelComponentKey = GetLonghornLabelKey ''component''"

definition GetEngineImageLabels :: "string \<Rightarrow> labels" where
  "GetEngineImageLabels engineImageName =
     (let labels = GetBaseLabelsForSystemManagedComponent;
          labels = labels(GetLonghornLabelComponentKey \<mapsto> LonghornLabelEngineImage);
          labels = labels(GetLonghornLabelKey LonghornLabelEngineImage \<mapsto> engineImageName)
      in labels)"

definition GetEIDaemonSetLabelSelector :: "string \<Rightarrow> labels" where
  "GetEIDaemonSetLabelSelector engineImageName =
     (let labels = Map.empty;
          labels = labels(GetLonghornLabelComponentKey \<mapsto> LonghornLabelEngineImage);
          labels = labels(GetLonghornLabelKey LonghornLabelEngineImage \<mapsto> engineImageName)
      in labels)"

definition GetEngineImageComponentLabel :: labels where
  "GetEngineImageComponentLabel = [GetLonghornLabelComponentKey \<mapsto> LonghornLabelEngineImage]"

definition GetInstanceManagerComponentLabel :: labels where
  "GetInstanceManagerComponentLabel =
     [GetLonghornLabelComponentKey \<mapsto> LonghornLabelInstanceManager]"

definition GetShareManagerComponentLabel :: labels where
  "GetShareManagerComponentLabel = [GetLonghornLabelComponentKey \<mapsto> LonghornLabelShareManager]"

definition GetInstanceManagerLabels ::
  "(string \<Rightarrow> string) \<Rightarrow> string \<Rightarrow> string \<Rightarrow> InstanceManagerType \<Rightarrow> labels option" where
  "GetInstanceManagerLabels GetStringChecksum node instanceManagerImage managerType =
     (let labels = GetBaseLabelsForSystemManagedComponent;
          labels = labels(GetLonghornLabelComponentKey \<mapsto> LonghornLabelInstanceManager);
          labels = labels(GetLonghornLabelKey LonghornLabelInstanceManagerType \<mapsto> managerType);
          labels = (if node \<noteq> '''' then labels(GetLonghornLabelKey LonghornLabelNode \<mapsto> node)
                    else labels)
      in if instanceManagerImage \<noteq> '''' then
           map_option
             (\<lambda>name. labels(GetLonghornLabelKey LonghornLabelInstanceManagerImage \<mapsto> name))
             (GetInstanceManagerImageChecksumName GetStringChecksum
                (GetImageCanonicalName instanceManagerImage))
         else Some labels)"

definition GetShareManagerInstanceLabel :: "string \<Rightarrow> labels" where
  "GetShareManagerInstanceLabel name =
     (let labels = GetBaseLabelsForSystemManagedComponent;
          labels = labels(GetLonghornLabelKey LonghornLabelShareManager \<mapsto> name)
      in labels)"

definition GetShareManagerLabels ::
  "(string \<Rightarrow> string) \<Rightarrow> string \<Rightarrow> string \<Rightarrow> labels option" where
  "GetShareManagerLabels GetStringChecksum name img =
     (let labels = GetBaseLabelsForSystemManagedComponent;
          labels = labels(GetLonghornLabelComponentKey \<mapsto> LonghornLabelShareManager);
          labels = (if name \<noteq> '''' then labels(GetLonghornLabelKey LonghornLabelShareManager \<mapsto> name)
                    else labels)
      in if img \<noteq> '''' then
           map_option
             (\<lambda>sum. labels(GetLonghornLabelKey LonghornLabelShareManagerImage \<mapsto> sum))
             (GetShareManagerImageChecksumName GetStringChecksum (GetImageCanonicalName img))
         else Some labels)"

definition GetCronJobLabels :: "string \<Rightarrow> RecurringJob \<Rightarrow> labels" where
  "GetCronJobLabels volumeName job =
     (let labels = GetBaseLabelsForSystemManagedComponent;
          labels = labels(LonghornLabelVolume \<mapsto> volumeName);
          labels = labels(GetLonghornLabelKey LonghornLabelCronJobTask \<mapsto> Task job)
      in labels)"

definition GetCronJobPodLabels :: "string \<Rightarrow> RecurringJob \<Rightarrow> labels" where
  "GetCronJobPodLabels volumeName job =
     (let labels = Map.empty;
          labels = labels(LonghornLabelVolume \<mapsto> volumeName);
          labels = labels(GetLonghornLabelKey LonghornLabelCronJobTask \<mapsto> Task job)
      in labels)"

definition GetBackingImageLabels :: labels where
  "GetBackingImageLabels =
     (let labels = GetBaseLabelsForSystemManagedComponent;
          labels = labels(GetLonghornLabelComponentKey \<mapsto> LonghornLabelBackingImage)
      in labels)"

definition GetBackingImageManagerLabels :: "string \<Rightarrow> string \<Rightarrow> labels" where
  "GetBackingImageManagerLabels nodeID diskUUID =
     (let labels = GetBaseLabelsForSystemManagedComponent;
          labels = labels(GetLonghornLabelComponentKey \<mapsto> LonghornLabelBackingImageManager);
          labels = (if diskUUID \<noteq> ''''
                    then labels(GetLonghornLabelKey LonghornLabelDiskUUID \<mapsto> diskUUID)
                    else labels);
          labels = (if nodeID \<noteq> '''' then labels(GetLonghornLabelKey LonghornLabelNode \<mapsto> nodeID)
                    else labels)
      in labels)"

definition GetBackingImageDataSourceLabels :: "string \<Rightarrow> string \<Rightarrow> string \<Rightarrow> labels" where
  "GetBackingImageDataSourceLabels name nodeID diskUUID =
     (let labels = GetBaseLabelsForSystemManagedComponent;
          labels = labels(GetLonghornLabelComponentKey \<mapsto> LonghornLabelBackingImageDataSource);
          labels = (if name \<noteq> ''''
                    then labels(GetLonghornLabelKey LonghornLabelBackingImageDataSource \<mapsto> name)
                    else labels);
          labels = (if diskUUID \<noteq> ''''
                    then labels(GetLonghornLabelKey LonghornLabelDiskUUID \<mapsto> diskUUID)
                    else labels);
          labels = (if nodeID \<noteq> '''' then labels(GetLonghornLabelKey LonghornLabelNode \<mapsto> nodeID)
                    else labels)
      in labels)"

definition GetVolumeLabels :: "string \<Rightarrow> labels" where
  "GetVolumeLabels volumeName = [LonghornLabelVolume \<mapsto> volumeName]"

section \<open>Option validators\<close>

text \<open>A validator returns Go's \<^verbatim>\<open>error\<close>: \<open>None\<close> is \<^verbatim>\<open>nil\<close>.\<close>

definition ValidateReplicaCount :: "int64 \<Rightarrow> error option" where
  "ValidateReplicaCount count =
     (if count < 1 \<or> count > 20 then Some ReplicaCountOutOfRange else None)"

text \<open>
  \<^verbatim>\<open>strconv.Atoi\<close> is \<^verbatim>\<open>ParseInt(s, 10, 0)\<close>: an optional sign, then decimal digits
  read by the loop of \<^verbatim>\<open>ParseUint\<close>, which stops with a syntax error at the first byte
  that is no digit and with a range error as soon as the value leaves 64 bits; then the
  value must fit the signed range. (The fast path of \<^verbatim>\<open>Atoi\<close> for short strings gives
  the same results.)
\<close>

definition isDigit :: "char \<Rightarrow> bool" where
  "isDigit c = (c \<in> set ''0123456789'')"

definition digitValue :: "char \<Rightarrow> int" where
  "digitValue c = of_char c - 48"

fun parseUintDigits :: "int \<Rightarrow> string \<Rightarrow> error + int" where
  "parseUintDigits n [] = Inr n"
| "parseUintDigits n (c # cs) =
     (if \<not> isDigit c then Inl ErrSyntax
      else if n \<ge> (2 ^ 64 - 1) div 10 + 1 then Inl ErrRange
      else if n * 10 + digitValue c > 2 ^ 64 - 1 then Inl ErrRange
      else parseUintDigits (n * 10 + digitValue c) cs)"

definition strconv_Atoi :: "string \<Rightarrow> error + int64" where
  "strconv_Atoi s =
     (if s = [] then Inl (NumError ''Atoi'' s ErrSyntax)
      else
        (let neg = (hd s = CHR ''-'');
             digits = (if hd s = CHR ''+'' \<or> hd s = CHR ''-'' then tl s else s)
         in if digits = [] then Inl (NumError ''Atoi'' s ErrSyntax)
            else
              (case parseUintDigits 0 digits of
                 Inl err \<Rightarrow> Inl (NumError ''Atoi'' s err)
               | Inr un \<Rightarrow>
                   if \<not> neg \<and> un \<ge> 2 ^ 63 then Inl (NumError ''Atoi'' s ErrRange)
                   else if neg \<and> un > 2 ^ 63 then Inl (NumError ''Atoi'' s ErrRange)
                   else Inr (if neg then - un else un))))"

text \<open>The sum \<^verbatim>\<open>engineManagerCPU+replicaManagerCPU\<close> is a sum of Go \<^verbatim>\<open>int\<close>s.\<close>

definition ValidateCPUReservationValues :: "string \<Rightarrow> string \<Rightarrow> error option" where
  "ValidateCPUReservationValues engineManagerCPUStr replicaManagerCPUStr =
     (case strconv_Atoi engineManagerCPUStr of
        Inl err \<Rightarrow> Some (EngineManagerCPUNotInt engineManagerCPUStr err)
      | Inr engineManagerCPU \<Rightarrow>
          (case strconv_Atoi replicaManagerCPUStr of
             Inl err \<Rightarrow> Some (ReplicaManagerCPUNotInt replicaManagerCPUStr err)
           | Inr replicaManagerCPU \<Rightarrow>
               if wrap64 (engineManagerCPU + replicaManagerCPU) < 0
                  \<or> wrap64 (engineManagerCPU + replicaManagerCPU) > 40
               then Some (CPUSumOutOfRange engineManagerCPU replicaManagerCPU)
               else None))"

section \<open>Resolution of paths and valid inputs\<close>

text \<open>
  The properties of \<^verbatim>\<open>CreateDisksFromAnnotation\<close> speak of the filesystem a path
  resolves to. That presupposes a collaborator that answers a path the same way at every
  call: \<open>answers GetDiskInfo info\<close> says that the result of \<^verbatim>\<open>GetDiskInfo\<close> on a path
  is \<open>info\<close> of that path, whatever the state of the world.
\<close>

definition answers :: "'w GetDiskInfo_fn \<Rightarrow> (string \<Rightarrow> error + DiskInfo) \<Rightarrow> bool" where
  "answers GetDiskInfo info = (\<forall>w p. fst (GetDiskInfo w p) = info p)"

text \<open>The filesystem id a path resolves to, and the name an entry is stored under
  (lines 534 to 536 of the source: the given name, or the default prefix and the id).\<close>

definition fsidOf :: "(string \<Rightarrow> error + DiskInfo) \<Rightarrow> string \<Rightarrow> string option" where
  "fsidOf info path =
     (case info path of Inl err \<Rightarrow> None | Inr diskInfo \<Rightarrow> Some (Fsid diskInfo))"

definition nameOf :: "(string \<Rightarrow> error + DiskInfo) \<Rightarrow> DiskSpecWithName \<Rightarrow> string option" where
  "nameOf info disk =
     (case info (DiskSpec.Path disk) of
        Inl err \<Rightarrow> None
      | Inr diskInfo \<Rightarrow>
          Some (if Name disk = '''' then DefaultDiskPrefix @ Fsid diskInfo else Name disk))"

definition reservedOk :: "(string \<Rightarrow> error + DiskInfo) \<Rightarrow> string \<Rightarrow> int64 \<Rightarrow> bool" where
  "reservedOk info path reserved =
     (case info path of
        Inl err \<Rightarrow> False
      | Inr diskInfo \<Rightarrow> 0 \<le> reserved \<and> reserved \<le> StorageMaximum diskInfo)"

definition tagsOk :: "ValidateTags_fn \<Rightarrow> DiskSpecWithName \<Rightarrow> bool" where
  "tagsOk ValidateTags disk =
     (case ValidateTags (Tags disk) of Inl err \<Rightarrow> False | Inr tags \<Rightarrow> True)"

text \<open>A valid input: non-empty distinct paths, every path resolving, to distinct
  filesystems, every reservation within the bounds of its filesystem, tags that the
  tag check accepts, and distinct resulting names.\<close>

definition validInput ::
  "(string \<Rightarrow> error + DiskInfo) \<Rightarrow> ValidateTags_fn \<Rightarrow> DiskSpecWithName list \<Rightarrow> bool"
where
  "validInput info ValidateTags disks =
     ('''' \<notin> set (map DiskSpec.Path disks)
      \<and> distinct (map DiskSpec.Path disks)
      \<and> None \<notin> set (map (fsidOf info \<circ> DiskSpec.Path) disks)
      \<and> distinct (map (fsidOf info \<circ> DiskSpec.Path) disks)
      \<and> list_all (\<lambda>d. reservedOk info (DiskSpec.Path d) (StorageReserved d)) disks
      \<and> list_all (tagsOk ValidateTags) disks
      \<and> distinct (map (nameOf info) disks))"

text \<open>The entry the loop stores for an accepted disk.\<close>

definition entryOf ::
  "(string \<Rightarrow> error + DiskInfo) \<Rightarrow> ValidateTags_fn \<Rightarrow> DiskSpecWithName
     \<Rightarrow> (string \<times> DiskSpec) option"
where
  "entryOf info ValidateTags disk =
     (case (nameOf info disk, ValidateTags (Tags disk)) of
        (Some name, Inr tags) \<Rightarrow> Some (name, DiskSpec.truncate (disk\<lparr>Tags := tags\<rparr>))
      | _ \<Rightarrow> None)"

text \<open>The two maps of the loop have met none of the disks still to come.\<close>

definition fresh ::
  "(string \<Rightarrow> error + DiskInfo) \<Rightarrow> disk_map \<Rightarrow> (string \<rightharpoonup> string)
     \<Rightarrow> DiskSpecWithName list \<Rightarrow> bool"
where
  "fresh info vd ef disks =
    ((\<forall>d\<in>set disks. DiskSpec.Path d \<notin> set (map (DiskSpec.Path \<circ> snd) vd))
     \<and> (\<forall>d\<in>set disks. \<forall>f. fsidOf info (DiskSpec.Path d) = Some f \<longrightarrow> ef f = None)
     \<and> (\<forall>d\<in>set disks. \<forall>n. nameOf info d = Some n \<longrightarrow> map_of vd n = None))"

text \<open>
  For a filesystem query that may answer differently from call to call, what the entries
  resolve to is what the query answers when it is asked for their paths one after the
  other, as the loop asks: \<open>lookups GetDiskInfo w disks\<close> is that list of answers, from
  the state \<open>w\<close> of the world on. The filesystem id, the name and the bounds of the
  reservation of an entry are then read from its answer.
\<close>

fun lookups :: "'w GetDiskInfo_fn \<Rightarrow> 'w \<Rightarrow> DiskSpecWithName list \<Rightarrow> (error + DiskInfo) list" where
  "lookups GetDiskInfo w [] = []"
| "lookups GetDiskInfo w (disk # disks) =
     fst (GetDiskInfo w (DiskSpec.Path disk))
       # lookups GetDiskInfo (snd (GetDiskInfo w (DiskSpec.Path disk))) disks"

definition fsidOfAnswer :: "error + DiskInfo \<Rightarrow> string option" where
  "fsidOfAnswer answer =
     (case answer of Inl err \<Rightarrow> None | Inr diskInfo \<Rightarrow> Some (Fsid diskInfo))"

definition nameOfAnswer :: "DiskSpecWithName \<Rightarrow> error + DiskInfo \<Rightarrow> string option" where
  "nameOfAnswer disk answer =
     (case answer of
        Inl err \<Rightarrow> None
      | Inr diskInfo \<Rightarrow>
          Some (if Name disk = '''' then DefaultDiskPrefix @ Fsid diskInfo else Name disk))"

definition reservedOkAnswer :: "DiskSpecWithName \<Rightarrow> error + DiskInfo \<Rightarrow> bool" where
  "reservedOkAnswer disk answer =
     (case answer of
        Inl err \<Rightarrow> False
      | Inr diskInfo \<Rightarrow>
          0 \<le> StorageReserved disk \<and> StorageReserved disk \<le> StorageMaximum diskInfo)"

definition validRun ::
  "ValidateTags_fn \<Rightarrow> DiskSpecWithName list \<Rightarrow> (error + DiskInfo) list \<Rightarrow> bool"
where
  "validRun ValidateTags disks results =
     ('''' \<notin> set (map DiskSpec.Path disks)
      \<and> distinct (map DiskSpec.Path disks)
      \<and> None \<notin> set (map fsidOfAnswer results)
      \<and> distinct (map fsidOfAnswer results)
      \<and> list_all2 reservedOkAnswer disks results
      \<and> list_all (tagsOk ValidateTags) disks
      \<and> distinct (map2 nameOfAnswer disks results))"

text \<open>The two maps of the loop have met none of the disks still to come, nor any of
  their answers.\<close>

definition freshRun ::
  "disk_map \<Rightarrow> (string \<rightharpoonup> string) \<Rightarrow> DiskSpecWithName list \<Rightarrow> (error + DiskInfo) list \<Rightarrow> bool"
where
  "freshRun vd ef disks results =
    ((\<forall>d\<in>set disks. DiskSpec.Path d \<notin> set (map (DiskSpec.Path \<circ> snd) vd))
     \<and> (\<forall>f. Some f \<in> set (map fsidOfAnswer results) \<longrightarrow> ef f = None)
     \<and> (\<forall>n. Some n \<in> set (map2 nameOfAnswer disks results) \<longrightarrow> map_of vd n = None))"

section \<open>Example inputs\<close>

text \<open>
  The example of the specification: the annotation
  \<^verbatim>\<open>[{"path":"/mnt/a"},{"path":"/mnt/b","storageReserved":100,"tags":["ssd"]}]\<close>, decoded,
  on a node where \<^verbatim>\<open>/mnt/a\<close> is filesystem F1 of 1000 bytes and \<^verbatim>\<open>/mnt/b\<close> is
  filesystem F2 of 500 bytes.
\<close>

definition ex_diskA :: DiskSpecWithName where
  "ex_diskA = \<lparr>DiskSpec.Path = ''/mnt/a'', AllowScheduling = False, EvictionRequested = False,
                StorageReserved = 0, Tags = [], Name = ''''\<rparr>"

definition ex_diskB :: DiskSpecWithName where
  "ex_diskB = \<lparr>DiskSpec.Path = ''/mnt/b'', AllowScheduling = False, EvictionRequested = False,
                StorageReserved = 100, Tags = [''ssd''], Name = ''''\<rparr>"

definition ex_info :: "string \<Rightarrow> error + DiskInfo" where
  "ex_info p =
     (if p = ''/mnt/a'' then
        Inr \<lparr>Fsid = ''F1'', DiskInfo.Path = ''/mnt/a'', StorageMaximum = 1000,
             StorageAvailable = 800\<rparr>
      else if p = ''/mnt/b'' then
        Inr \<lparr>Fsid = ''F2'', DiskInfo.Path = ''/mnt/b'', StorageMaximum = 500,
             StorageAvailable = 400\<rparr>
      else Inl (External ''no such file or directory''))"

text \<open>The same node with \<^verbatim>\<open>/mnt/b\<close> on filesystem F1, as a bind mount would be.\<close>

definition ex_info_bind :: "string \<Rightarrow> error + DiskInfo" where
  "ex_info_bind p =
     (if p = ''/mnt/a'' then
        Inr \<lparr>Fsid = ''F1'', DiskInfo.Path = ''/mnt/a'', StorageMaximum = 1000,
             StorageAvailable = 800\<rparr>
      else if p = ''/mnt/b'' then
        Inr \<lparr>Fsid = ''F1'', DiskInfo.Path = ''/mnt/b'', StorageMaximum = 1000,
             StorageAvailable = 800\<rparr>
      else Inl (External ''no such file or directory''))"

text \<open>A filesystem query that counts its calls in the state of the world, and one that
  answers the first call only and fails afterwards.\<close>

definition ex_GetDiskInfo :: "(string \<Rightarrow> error + DiskInfo) \<Rightarrow> nat GetDiskInfo_fn" where
  "ex_GetDiskInfo info calls p = (info p, Suc calls)"

definition ex_GetDiskInfo_once :: "(string \<Rightarrow> error + DiskInfo) \<Rightarrow> nat GetDiskInfo_fn" where
  "ex_GetDiskInfo_once info calls p =
     (if calls = 0 then info p else Inl (External ''input/output error''), Suc calls)"

text \<open>A filesystem query under which the filesystem id of every path changes from call
  to call: the number of the call is appended to the id.\<close>

definition ex_GetDiskInfo_changing :: "(string \<Rightarrow> error + DiskInfo) \<Rightarrow> nat GetDiskInfo_fn" where
  "ex_GetDiskInfo_changing info calls p =
     (case info p of
        Inl err \<Rightarrow> Inl err
      | Inr diskInfo \<Rightarrow> Inr (diskInfo\<lparr>Fsid := Fsid diskInfo @ replicate calls CHR ''+''\<rparr>),
      Suc calls)"

definition ex_ValidateTags :: ValidateTags_fn where
  "ex_ValidateTags tags = (if '''' \<in> set tags then Inl (External ''invalid tag'') else Inr tags)"

definition ex_json :: "DiskSpecWithName list \<Rightarrow> json_Unmarshal_fn" where
  "ex_json disks s =
     (if s = ''annotation'' then Inr disks else Inl (External ''unexpected end of JSON input''))"

text \<open>A stand-in for the checksum, long enough for the slice.\<close>

definition ex_checksum :: "string \<Rightarrow> string" where
  "ex_checksum s = concat (replicate 8 (''0a1B'' @ take 1 s))"

text \<open>A directory creation that succeeds, and a filesystem of \<open>2^62\<close> bytes.\<close>

definition ex_mkdir :: "nat \<Rightarrow> string \<Rightarrow> error option \<times> nat" where
  "ex_mkdir calls p = (None, Suc calls)"

definition ex_info_huge :: "string \<Rightarrow> error + DiskInfo" where
  "ex_info_huge p =
     Inr \<lparr>Fsid = ''F9'', DiskInfo.Path = p, StorageMaximum = 2 ^ 62, StorageAvailable = 2 ^ 62\<rparr>"

section \<open>Theorems\<close>

lemma strings_Contains_iff:
  "strings_Contains s substr \<longleftrightarrow> (\<exists>u v. s = u @ substr @ v)"
proof (induction s)
  case Nil
  then show ?case by auto
next
  case (Cons c cs)
  have pre: "strings_HasPrefix (c # cs) substr \<longleftrightarrow> (\<exists>v. c # cs = substr @ v)"
    unfolding strings_HasPrefix_def
    by (metis append_eq_conv_conj)
  show ?case
  proof
    assume "strings_Contains (c # cs) substr"
    then consider "strings_HasPrefix (c # cs) substr" | "strings_Contains cs substr"
      by auto
    then show "\<exists>u v. c # cs = u @ substr @ v"
    proof cases
      case 1
      then obtain v where "c # cs = substr @ v" using pre by blast
      then have "c # cs = [] @ substr @ v" by simp
      then show ?thesis by blast
    next
      case 2
      then obtain u v where "cs = u @ substr @ v" using Cons.IH by blast
      then have "c # cs = (c # u) @ substr @ v" by simp
      then show ?thesis by blast
    qed
  next
    assume "\<exists>u v. c # cs = u @ substr @ v"
    then obtain u v where uv: "c # cs = u @ substr @ v" by blast
    show "strings_Contains (c # cs) substr"
    proof (cases u)
      case Nil
      with uv have "\<exists>v. c # cs = substr @ v" by simp
      then have "strings_HasPrefix (c # cs) substr" by (simp only: pre)
      then show ?thesis by simp
    next
      case (Cons a u')
      with uv have "cs = u' @ substr @ v" by simp
      then show ?thesis using Cons.IH by auto
    qed
  qed
qed

lemma strings_TrimPrefix_append: "strings_TrimPrefix (pre @ s) pre = s"
  by (simp add: strings_TrimPrefix_def strings_HasPrefix_def)

subsection \<open>Name transforms\<close>

text \<open>
  C4. Going from a logical name to the runtime object name and back returns the logical
  name, for every string: the share-manager pod name and the engine-image daemon-set name
  are the logical name behind a fixed prefix, and the inverse strips that prefix once.
\<close>

theorem C4_name_transform_roundtrip:
  "GetShareManagerNameFromShareManagerPodName
     (GetShareManagerPodNameFromShareManagerName L) = L
   \<and> GetEngineImageNameFromDaemonSetName (GetDaemonSetNameFromEngineImageName L) = L"
proof
  have "GetShareManagerPodNameFromShareManagerName L = (LonghornLabelShareManager @ ''-'') @ L"
    by (simp add: GetShareManagerPodNameFromShareManagerName_def)
  then show "GetShareManagerNameFromShareManagerPodName
               (GetShareManagerPodNameFromShareManagerName L) = L"
    unfolding GetShareManagerNameFromShareManagerPodName_def
    by (simp only: strings_TrimPrefix_append)
next
  show "GetEngineImageNameFromDaemonSetName (GetDaemonSetNameFromEngineImageName L) = L"
    unfolding GetEngineImageNameFromDaemonSetName_def GetDaemonSetNameFromEngineImageName_def
    by (rule strings_TrimPrefix_append)
qed

subsection \<open>Error classification\<close>

text \<open>
  C10. The text of a \<^verbatim>\<open>NotFoundError\<close> contains "cannot find" whatever its name is, so
  \<^verbatim>\<open>ErrorIsNotFound\<close> classifies it as not found; and each of the two classifiers holds
  exactly when its literal occurs somewhere in the text of the error, so it looks at
  nothing but that text.
\<close>

theorem C10_NotFoundError_is_not_found:
  "ErrorIsNotFound NotFoundError_Error (NotFoundError n)
   \<and> ErrorIsNotFound Error_of err = (\<exists>u v. Error_of err = u @ ''cannot find'' @ v)
   \<and> ErrorAlreadyExists Error_of err = (\<exists>u v. Error_of err = u @ ''already exists'' @ v)"
proof -
  have "NotFoundError_Error (NotFoundError n) = [] @ ''cannot find'' @ (CHR '' '' # n)"
    by simp
  then have "\<exists>u v. NotFoundError_Error (NotFoundError n) = u @ ''cannot find'' @ v"
    by blast
  then have "ErrorIsNotFound NotFoundError_Error (NotFoundError n)"
    unfolding ErrorIsNotFound_def by (simp only: strings_Contains_iff)
  then show ?thesis
    by (simp only: ErrorIsNotFound_def ErrorAlreadyExists_def strings_Contains_iff simp_thms)
qed

subsection \<open>Region and zone\<close>

text \<open>
  C9. With the flag set the result is exactly what the label map holds under the two
  topology keys, region first and zone second: the value of a key that is present, the
  empty string for a key that is absent. So label maps that agree on the two topology
  keys give the same region and zone whatever they hold under the legacy failure-domain
  keys. With the flag unset the same holds of the two failure-domain keys, and the
  topology keys are not read.
\<close>

theorem C9_GetRegionAndZone_reads_selected_pair:
  "GetRegionAndZone l True
     = ((case l KubernetesTopologyRegionLabelKey of None \<Rightarrow> '''' | Some v \<Rightarrow> v),
        (case l KubernetesTopologyZoneLabelKey of None \<Rightarrow> '''' | Some v \<Rightarrow> v))
   \<and> GetRegionAndZone l False
     = ((case l KubernetesFailureDomainRegionLabelKey of None \<Rightarrow> '''' | Some v \<Rightarrow> v),
        (case l KubernetesFailureDomainZoneLabelKey of None \<Rightarrow> '''' | Some v \<Rightarrow> v))
   \<and> (c KubernetesTopologyRegionLabelKey = Some region
      \<longrightarrow> fst (GetRegionAndZone c True) = region)
   \<and> (c KubernetesTopologyZoneLabelKey = Some zone
      \<longrightarrow> snd (GetRegionAndZone c True) = zone)
   \<and> (d KubernetesFailureDomainRegionLabelKey = Some region'
      \<longrightarrow> fst (GetRegionAndZone d False) = region')
   \<and> (d KubernetesFailureDomainZoneLabelKey = Some zone'
      \<longrightarrow> snd (GetRegionAndZone d False) = zone')
   \<and> (l1 KubernetesTopologyRegionLabelKey = l2 KubernetesTopologyRegionLabelKey
      \<and> l1 KubernetesTopologyZoneLabelKey = l2 KubernetesTopologyZoneLabelKey
      \<longrightarrow> GetRegionAndZone l1 True = GetRegionAndZone l2 True)
   \<and> (m1 KubernetesFailureDomainRegionLabelKey = m2 KubernetesFailureDomainRegionLabelKey
      \<and> m1 KubernetesFailureDomainZoneLabelKey = m2 KubernetesFailureDomainZoneLabelKey
      \<longrightarrow> GetRegionAndZone m1 False = GetRegionAndZone m2 False)
   \<and> (a KubernetesTopologyRegionLabelKey = None \<longrightarrow> fst (GetRegionAndZone a True) = '''')
   \<and> (a KubernetesTopologyZoneLabelKey = None \<longrightarrow> snd (GetRegionAndZone a True) = '''')
   \<and> (b KubernetesFailureDomainRegionLabelKey = None
      \<longrightarrow> fst (GetRegionAndZone b False) = '''')
   \<and> (b KubernetesFailureDomainZoneLabelKey = None
      \<longrightarrow> snd (GetRegionAndZone b False) = '''')"
  by (simp add: GetRegionAndZone_def)

theorem C9_GetRegionAndZone_witness:
  "GetRegionAndZone
     [KubernetesTopologyRegionLabelKey \<mapsto> ''eu'', KubernetesTopologyZoneLabelKey \<mapsto> ''eu-1'',
      KubernetesFailureDomainRegionLabelKey \<mapsto> ''old'',
      KubernetesFailureDomainZoneLabelKey \<mapsto> ''old-1'']
     True = (''eu'', ''eu-1'')
   \<and> GetRegionAndZone
     [KubernetesTopologyRegionLabelKey \<mapsto> ''eu'', KubernetesTopologyZoneLabelKey \<mapsto> ''eu-1'',
      KubernetesFailureDomainRegionLabelKey \<mapsto> ''old'',
      KubernetesFailureDomainZoneLabelKey \<mapsto> ''old-1'']
     False = (''old'', ''old-1'')
   \<and> GetRegionAndZone
     [KubernetesTopologyRegionLabelKey \<mapsto> ''eu'', KubernetesFailureDomainRegionLabelKey \<mapsto> ''old'']
     True
   = GetRegionAndZone [KubernetesTopologyRegionLabelKey \<mapsto> ''eu''] True
   \<and> GetRegionAndZone [KubernetesTopologyRegionLabelKey \<mapsto> ''eu''] True = (''eu'', '''')
   \<and> GetRegionAndZone
       [KubernetesFailureDomainZoneLabelKey \<mapsto> ''z1'', KubernetesTopologyZoneLabelKey \<mapsto> ''new'']
       False
     = GetRegionAndZone [KubernetesFailureDomainZoneLabelKey \<mapsto> ''z1''] False
   \<and> GetRegionAndZone [KubernetesFailureDomainZoneLabelKey \<mapsto> ''z1''] False = ('''', ''z1'')
   \<and> GetRegionAndZone Map.empty True = ('''', '''')
   \<and> GetRegionAndZone Map.empty False = ('''', '''')"
proof -
  note keys = KubernetesTopologyRegionLabelKey_def KubernetesTopologyZoneLabelKey_def
    KubernetesFailureDomainRegionLabelKey_def KubernetesFailureDomainZoneLabelKey_def
  let ?all = "[KubernetesTopologyRegionLabelKey \<mapsto> ''eu'',
      KubernetesTopologyZoneLabelKey \<mapsto> ''eu-1'',
      KubernetesFailureDomainRegionLabelKey \<mapsto> ''old'',
      KubernetesFailureDomainZoneLabelKey \<mapsto> ''old-1'']"
  have t: "?all KubernetesTopologyRegionLabelKey = Some ''eu''"
    "?all KubernetesTopologyZoneLabelKey = Some ''eu-1''"
    "?all KubernetesFailureDomainRegionLabelKey = Some ''old''"
    "?all KubernetesFailureDomainZoneLabelKey = Some ''old-1''"
    by (simp_all add: keys)
  have 1: "GetRegionAndZone ?all True = (''eu'', ''eu-1'')
      \<and> GetRegionAndZone ?all False = (''old'', ''old-1'')"
    using C9_GetRegionAndZone_reads_selected_pair
      [where c = ?all and d = ?all and region = "''eu''" and zone = "''eu-1''"
         and region' = "''old''" and zone' = "''old-1''"] t
    by (simp add: prod_eq_iff)
  have 2: "GetRegionAndZone
       [KubernetesTopologyRegionLabelKey \<mapsto> ''eu'', KubernetesFailureDomainRegionLabelKey \<mapsto> ''old'']
       True
     = GetRegionAndZone [KubernetesTopologyRegionLabelKey \<mapsto> ''eu''] True
     \<and> GetRegionAndZone
         [KubernetesFailureDomainZoneLabelKey \<mapsto> ''z1'', KubernetesTopologyZoneLabelKey \<mapsto> ''new'']
         False
       = GetRegionAndZone [KubernetesFailureDomainZoneLabelKey \<mapsto> ''z1''] False
     \<and> GetRegionAndZone Map.empty True = ('''', '''')
     \<and> GetRegionAndZone Map.empty False = ('''', '''')"
    using C9_GetRegionAndZone_reads_selected_pair
      [where ?l1.0 = "[KubernetesTopologyRegionLabelKey \<mapsto> ''eu'',
            KubernetesFailureDomainRegionLabelKey \<mapsto> ''old'']"
         and ?l2.0 = "[KubernetesTopologyRegionLabelKey \<mapsto> ''eu'']"
         and ?m1.0 = "[KubernetesFailureDomainZoneLabelKey \<mapsto> ''z1'',
            KubernetesTopologyZoneLabelKey \<mapsto> ''new'']"
         and ?m2.0 = "[KubernetesFailureDomainZoneLabelKey \<mapsto> ''z1'']"
         and a = Map.empty and b = Map.empty]
    by (simp add: keys prod_eq_iff)
  have 3: "GetRegionAndZone [KubernetesTopologyRegionLabelKey \<mapsto> ''eu''] True = (''eu'', '''')
     \<and> GetRegionAndZone [KubernetesFailureDomainZoneLabelKey \<mapsto> ''z1''] False = ('''', ''z1'')"
    by (simp add: GetRegionAndZone_def keys)
  from 1 2 3 show ?thesis by blast
qed

subsection \<open>The loop of CreateDisksFromAnnotation\<close>

lemma update_fresh: "map_of al k = None \<Longrightarrow> AList.update k v al = al @ [(k, v)]"
  by (induction al) auto

lemma list_ex_paths:
  "list_ex (\<lambda>vDisk. DiskSpec.Path vDisk = p) (map snd validDisks)
     \<longleftrightarrow> p \<in> set (map (DiskSpec.Path \<circ> snd) validDisks)"
  by (auto simp: list_ex_iff)

lemma body_Inr_iff:
  assumes "answers GetDiskInfo info"
  shows "CreateDisks_body GetDiskInfo ValidateTags (vd, ef) d w = (Inr st1, w1) \<longleftrightarrow>
     (\<exists>di tags. DiskSpec.Path d \<noteq> '''' \<and> info (DiskSpec.Path d) = Inr di
        \<and> w1 = snd (GetDiskInfo w (DiskSpec.Path d))
        \<and> DiskSpec.Path d \<notin> set (map (DiskSpec.Path \<circ> snd) vd)
        \<and> ef (Fsid di) = None
        \<and> 0 \<le> StorageReserved d \<and> StorageReserved d \<le> StorageMaximum di
        \<and> ValidateTags (Tags d) = Inr tags
        \<and> map_of vd (if Name d = '''' then DefaultDiskPrefix @ Fsid di else Name d) = None
        \<and> st1 = (vd @ [(if Name d = '''' then DefaultDiskPrefix @ Fsid di else Name d,
                         DiskSpec.truncate (d\<lparr>Tags := tags\<rparr>))],
                  ef(Fsid di \<mapsto> DiskSpec.Path d)))"
proof -
  obtain r w' where g: "GetDiskInfo w (DiskSpec.Path d) = (r, w')" by (cases "GetDiskInfo w (DiskSpec.Path d)")
  with assms have r: "r = info (DiskSpec.Path d)" unfolding answers_def by (metis fst_conv)
  show ?thesis
    unfolding CreateDisks_body_def Let_def
    using g r
    by (auto simp: list_ex_paths update_fresh simp del: set_map split: sum.splits option.splits)
qed

lemma body_Inr_iff':
  assumes "answers GetDiskInfo info"
  shows "CreateDisks_body GetDiskInfo ValidateTags (vd, ef) d w = (Inr st1, w1) \<longleftrightarrow>
     (\<exists>e f. DiskSpec.Path d \<noteq> '''' \<and> fsidOf info (DiskSpec.Path d) = Some f
        \<and> entryOf info ValidateTags d = Some e
        \<and> DiskSpec.Path (snd e) = DiskSpec.Path d
        \<and> nameOf info d = Some (fst e)
        \<and> w1 = snd (GetDiskInfo w (DiskSpec.Path d))
        \<and> DiskSpec.Path d \<notin> set (map (DiskSpec.Path \<circ> snd) vd)
        \<and> ef f = None
        \<and> reservedOk info (DiskSpec.Path d) (StorageReserved d)
        \<and> tagsOk ValidateTags d
        \<and> map_of vd (fst e) = None
        \<and> st1 = (vd @ [e], ef(f \<mapsto> DiskSpec.Path d)))"
  unfolding body_Inr_iff[OF assms]
  by (auto simp: fsidOf_def entryOf_def nameOf_def reservedOk_def tagsOk_def DiskSpec.truncate_def
      split: sum.splits)

lemma loop_Inr_D:
  assumes "answers GetDiskInfo info"
  shows "CreateDisks_loop GetDiskInfo ValidateTags (vd, ef) disks w = (Inr st1, w1)
    \<Longrightarrow> validInput info ValidateTags disks \<and> fresh info vd ef disks
        \<and> fst st1 = vd @ List.map_filter (entryOf info ValidateTags) disks"
proof (induction disks arbitrary: vd ef w)
  case Nil
  then show ?case by (auto simp: validInput_def fresh_def map_filter_simps)
next
  case (Cons d ds)
  from Cons.prems obtain st2 w2 where
    b: "CreateDisks_body GetDiskInfo ValidateTags (vd, ef) d w = (Inr st2, w2)"
    and l: "CreateDisks_loop GetDiskInfo ValidateTags st2 ds w2 = (Inr st1, w1)"
    by (auto split: prod.splits sum.splits)
  from b obtain e f where
    e: "DiskSpec.Path d \<noteq> ''''" "fsidOf info (DiskSpec.Path d) = Some f" "entryOf info ValidateTags d = Some e"
       "DiskSpec.Path (snd e) = DiskSpec.Path d" "nameOf info d = Some (fst e)"
       "DiskSpec.Path d \<notin> set (map (DiskSpec.Path \<circ> snd) vd)" "ef f = None"
       "reservedOk info (DiskSpec.Path d) (StorageReserved d)" "tagsOk ValidateTags d"
       "map_of vd (fst e) = None" "st2 = (vd @ [e], ef(f \<mapsto> DiskSpec.Path d))"
    unfolding body_Inr_iff'[OF assms] by blast
  have "validInput info ValidateTags ds \<and> fresh info (vd @ [e]) (ef(f \<mapsto> DiskSpec.Path d)) ds
        \<and> fst st1 = (vd @ [e]) @ List.map_filter (entryOf info ValidateTags) ds"
    by (rule Cons.IH[OF l[unfolded e(11)]])
  then have
    ih: "validInput info ValidateTags ds" "fresh info (vd @ [e]) (ef(f \<mapsto> DiskSpec.Path d)) ds"
        "fst st1 = (vd @ [e]) @ List.map_filter (entryOf info ValidateTags) ds"
    by blast+
  have p: "DiskSpec.Path d \<notin> set (map DiskSpec.Path ds)"
    using ih(2) e(4) unfolding fresh_def by auto
  have fs: "fsidOf info (DiskSpec.Path d) \<notin> set (map (fsidOf info \<circ> DiskSpec.Path) ds)"
  proof
    assume "fsidOf info (DiskSpec.Path d) \<in> set (map (fsidOf info \<circ> DiskSpec.Path) ds)"
    then obtain d' where "d' \<in> set ds" "fsidOf info (DiskSpec.Path d') = Some f" using e(2) by auto
    then have "(ef(f \<mapsto> DiskSpec.Path d)) f = None" using ih(2) unfolding fresh_def by blast
    then show False by simp
  qed
  have nm: "nameOf info d \<notin> set (map (nameOf info) ds)"
  proof
    assume "nameOf info d \<in> set (map (nameOf info) ds)"
    then obtain d' where "d' \<in> set ds" "nameOf info d' = Some (fst e)" using e(5) by auto
    then have "map_of (vd @ [e]) (fst e) = None" using ih(2) unfolding fresh_def by blast
    then show False by (cases e) (auto simp: map_add_def split: option.splits)
  qed
  have v: "validInput info ValidateTags (d # ds)"
    using ih(1) e p fs nm unfolding validInput_def by auto
  have fr: "fresh info vd ef (d # ds)"
    unfolding fresh_def
  proof (intro conjI ballI allI impI)
    fix d' assume "d' \<in> set (d # ds)"
    then show "DiskSpec.Path d' \<notin> set (map (DiskSpec.Path \<circ> snd) vd)"
      using e(6) ih(2) unfolding fresh_def by auto
  next
    fix d' f' assume "d' \<in> set (d # ds)" "fsidOf info (DiskSpec.Path d') = Some f'"
    then show "ef f' = None"
      using e(2,7) ih(2) unfolding fresh_def by (auto split: if_splits)
  next
    fix d' n assume "d' \<in> set (d # ds)" "nameOf info d' = Some n"
    then show "map_of vd n = None"
      using e(5,10) ih(2) unfolding fresh_def by (auto simp: map_add_def split: option.splits)
  qed
  show ?case using v fr ih(3) e(3) by (simp add: map_filter_simps)
qed

lemma loop_Inr_I:
  assumes "answers GetDiskInfo info"
  shows "validInput info ValidateTags disks \<Longrightarrow> fresh info vd ef disks
    \<Longrightarrow> \<exists>st1 w1. CreateDisks_loop GetDiskInfo ValidateTags (vd, ef) disks w = (Inr st1, w1)"
proof (induction disks arbitrary: vd ef w)
  case Nil
  then show ?case by simp
next
  case (Cons d ds)
  from Cons.prems(1) obtain f where f: "fsidOf info (DiskSpec.Path d) = Some f"
    unfolding validInput_def by (cases "fsidOf info (DiskSpec.Path d)") auto
  then obtain di where di: "info (DiskSpec.Path d) = Inr di" "f = Fsid di"
    unfolding fsidOf_def by (auto split: sum.splits)
  from Cons.prems(1) obtain tags where tags: "ValidateTags (Tags d) = Inr tags"
    unfolding validInput_def tagsOk_def by (auto split: sum.splits)
  define e where "e = (if Name d = '''' then DefaultDiskPrefix @ Fsid di else Name d,
     DiskSpec.truncate (d\<lparr>Tags := tags\<rparr>))"
  have en: "nameOf info d = Some (fst e)" "entryOf info ValidateTags d = Some e"
    "DiskSpec.Path (snd e) = DiskSpec.Path d"
    using di tags by (auto simp: nameOf_def entryOf_def e_def DiskSpec.truncate_def)
  have b: "CreateDisks_body GetDiskInfo ValidateTags (vd, ef) d w
      = (Inr (vd @ [e], ef(f \<mapsto> DiskSpec.Path d)), snd (GetDiskInfo w (DiskSpec.Path d)))"
    unfolding body_Inr_iff'[OF assms]
    using Cons.prems f en unfolding validInput_def fresh_def by auto
  have v: "validInput info ValidateTags ds"
    using Cons.prems(1) unfolding validInput_def by auto
  have fr: "fresh info (vd @ [e]) (ef(f \<mapsto> DiskSpec.Path d)) ds"
    unfolding fresh_def
  proof (intro conjI ballI allI impI)
    fix d' assume "d' \<in> set ds"
    then show "DiskSpec.Path d' \<notin> set (map (DiskSpec.Path \<circ> snd) (vd @ [e]))"
      using Cons.prems en(3) unfolding validInput_def fresh_def by (auto simp: image_iff)
  next
    fix d' f' assume "d' \<in> set ds" "fsidOf info (DiskSpec.Path d') = Some f'"
    then show "(ef(f \<mapsto> DiskSpec.Path d)) f' = None"
      using Cons.prems f unfolding validInput_def fresh_def by (auto simp: image_iff)
  next
    fix d' n assume d': "d' \<in> set ds" "nameOf info d' = Some n"
    then have "n \<noteq> fst e" using Cons.prems(1) en(1) unfolding validInput_def by (auto simp: image_iff)
    moreover have "map_of vd n = None" using d' Cons.prems(2) unfolding fresh_def by auto
    ultimately show "map_of (vd @ [e]) n = None" by (cases e) (auto simp: map_add_def)
  qed
  from Cons.IH[OF v fr, of "snd (GetDiskInfo w (DiskSpec.Path d))"] obtain st1 w1 where
    "CreateDisks_loop GetDiskInfo ValidateTags (vd @ [e], ef(f \<mapsto> DiskSpec.Path d)) ds
       (snd (GetDiskInfo w (DiskSpec.Path d))) = (Inr st1, w1)" by blast
  then have "CreateDisks_loop GetDiskInfo ValidateTags (vd, ef) (d # ds) w = (Inr st1, w1)"
    by (simp only: CreateDisks_loop.simps b prod.case sum.case)
  then show ?case by blast
qed

lemma loop_append:
  "CreateDisks_loop G V st (xs @ ys) w =
     (case CreateDisks_loop G V st xs w of
        (Inl err, w1) \<Rightarrow> (Inl err, w1)
      | (Inr st1, w1) \<Rightarrow> CreateDisks_loop G V st1 ys w1)"
  by (induction xs arbitrary: st w) (auto split: prod.splits sum.splits)

lemma body_Inr_shape:
  assumes "CreateDisks_body G V st d w = (Inr st1, w1)"
  shows "\<exists>name tags. DiskSpec.Path d \<noteq> '''' \<and>
     fst st1 = fst st @ [(name, DiskSpec.truncate (d\<lparr>Tags := tags\<rparr>))]"
  using assms unfolding CreateDisks_body_def Let_def
  by (auto simp: update_fresh split: prod.splits sum.splits option.splits if_splits)

lemma body_paths:
  assumes "CreateDisks_body G V st d w = (Inr st1, w1)"
  shows "DiskSpec.Path d \<noteq> '''' \<and>
     set (map (DiskSpec.Path \<circ> snd) (fst st1))
       = insert (DiskSpec.Path d) (set (map (DiskSpec.Path \<circ> snd) (fst st)))"
proof -
  from body_Inr_shape[OF assms] obtain name tags where
    "DiskSpec.Path d \<noteq> ''''"
    "fst st1 = fst st @ [(name, DiskSpec.truncate (d\<lparr>Tags := tags\<rparr>))]"
    by blast
  then show ?thesis by (simp add: DiskSpec.truncate_def)
qed

lemma loop_paths:
  "CreateDisks_loop G V st xs w = (Inr st1, w1) \<Longrightarrow>
     '''' \<notin> set (map DiskSpec.Path xs) \<and>
     set (map (DiskSpec.Path \<circ> snd) (fst st1))
       = set (map DiskSpec.Path xs) \<union> set (map (DiskSpec.Path \<circ> snd) (fst st))"
proof (induction xs arbitrary: st w)
  case Nil
  then show ?case by simp
next
  case (Cons d ds)
  from Cons.prems obtain st2 w2 where
    b: "CreateDisks_body G V st d w = (Inr st2, w2)"
    and l: "CreateDisks_loop G V st2 ds w2 = (Inr st1, w1)"
    by (auto split: prod.splits sum.splits)
  from body_paths[OF b] Cons.IH[OF l] show ?case by auto
qed

lemma body_duplicate_path:
  assumes "DiskSpec.Path d \<in> set (map (DiskSpec.Path \<circ> snd) (fst st))" "DiskSpec.Path d \<noteq> ''''"
  shows "CreateDisks_body G V st d w =
     (case G w (DiskSpec.Path d) of
        (Inl err, w2) \<Rightarrow> (Inl err, w2)
      | (Inr diskInfo, w2) \<Rightarrow> (Inl (DuplicateDiskPath (DiskSpec.Path d)), w2))"
  using assms unfolding CreateDisks_body_def Let_def
  by (auto simp: list_ex_paths simp del: set_map split: prod.splits sum.splits)

subsection \<open>Valid annotations\<close>

lemma entries_valid:
  assumes "validInput info V disks"
  shows "map (Some \<circ> fst) (List.map_filter (entryOf info V) disks) = map (nameOf info) disks
    \<and> map (DiskSpec.Path \<circ> snd) (List.map_filter (entryOf info V) disks) = map DiskSpec.Path disks
    \<and> map (StorageReserved \<circ> snd) (List.map_filter (entryOf info V) disks)
        = map StorageReserved disks"
  using assms
proof (induction disks)
  case Nil
  then show ?case by (simp add: map_filter_simps)
next
  case (Cons d ds)
  from Cons.prems have v: "validInput info V ds" unfolding validInput_def by auto
  from Cons.prems obtain n where n: "nameOf info d = Some n"
    unfolding validInput_def fsidOf_def nameOf_def by (auto split: sum.splits)
  from Cons.prems obtain tags where t: "V (Tags d) = Inr tags"
    unfolding validInput_def tagsOk_def by (auto split: sum.splits)
  have e: "entryOf info V d = Some (n, DiskSpec.truncate (d\<lparr>Tags := tags\<rparr>))"
    using n t by (simp add: entryOf_def)
  show ?case using Cons.IH[OF v] e n by (simp add: map_filter_simps DiskSpec.truncate_def)
qed

text \<open>
  C1. When the annotation decodes to \<open>k\<close> entries that form a valid input (non-empty
  distinct paths, resolving to distinct filesystem ids, reservations within
  \<open>0 \<dots> StorageMaximum\<close>, accepted tags, distinct resulting names),
  \<^verbatim>\<open>CreateDisksFromAnnotation\<close> returns no error and a mapping of \<open>k\<close> entries whose
  keys are those names, entry by entry; no two entries share a path, no two resolve to
  the same filesystem id, and the reservation of every entry lies within the bounds of
  its filesystem.
\<close>

theorem C1_valid_annotation_accepted:
  assumes "answers GetDiskInfo info"
    and "json_Unmarshal annotation = Inr disks"
    and "validInput info ValidateTags disks"
  shows "\<exists>validDisks w1.
     CreateDisksFromAnnotation json_Unmarshal GetDiskInfo ValidateTags annotation w
       = (Inr validDisks, w1)
     \<and> length validDisks = length disks
     \<and> map (Some \<circ> fst) validDisks = map (nameOf info) disks
     \<and> distinct (map fst validDisks)
     \<and> distinct (map (DiskSpec.Path \<circ> snd) validDisks)
     \<and> None \<notin> set (map (fsidOf info \<circ> DiskSpec.Path \<circ> snd) validDisks)
     \<and> distinct (map (fsidOf info \<circ> DiskSpec.Path \<circ> snd) validDisks)
     \<and> list_all (\<lambda>e. reservedOk info (DiskSpec.Path (snd e)) (StorageReserved (snd e)))
           validDisks"
proof -
  have fr: "fresh info [] Map.empty disks" by (simp add: fresh_def)
  from loop_Inr_I[OF assms(1,3) fr] obtain st1 w1 where
    l: "CreateDisks_loop GetDiskInfo ValidateTags ([], Map.empty) disks w = (Inr st1, w1)"
    by blast
  define vd where "vd = List.map_filter (entryOf info ValidateTags) disks"
  from loop_Inr_D[OF assms(1) l] have vd: "fst st1 = vd" by (simp add: vd_def)
  from entries_valid[OF assms(3)] have
    names: "map (Some \<circ> fst) vd = map (nameOf info) disks"
    and paths: "map (DiskSpec.Path \<circ> snd) vd = map DiskSpec.Path disks"
    and res: "map (StorageReserved \<circ> snd) vd = map StorageReserved disks"
    unfolding vd_def by blast+
  have r: "CreateDisksFromAnnotation json_Unmarshal GetDiskInfo ValidateTags annotation w
      = (Inr vd, w1)"
    using assms(2) l vd by (simp add: CreateDisksFromAnnotation_def UnmarshalToDisks_def)
  have len: "length vd = length disks"
    using names by (metis length_map)
  have dn: "distinct (map fst vd)"
  proof -
    have "distinct (map (Some \<circ> fst) vd)"
      using assms(3) names unfolding validInput_def by simp
    then show ?thesis by (simp add: distinct_map comp_def inj_on_def)
  qed
  have dp: "distinct (map (DiskSpec.Path \<circ> snd) vd)"
    using assms(3) paths unfolding validInput_def by simp
  have fs: "map (fsidOf info \<circ> DiskSpec.Path \<circ> snd) vd = map (fsidOf info \<circ> DiskSpec.Path) disks"
    using paths by (metis map_map comp_assoc)
  have rs: "list_all (\<lambda>e. reservedOk info (DiskSpec.Path (snd e)) (StorageReserved (snd e))) vd"
  proof -
    have "map (\<lambda>e. reservedOk info (DiskSpec.Path (snd e)) (StorageReserved (snd e))) vd
        = map (\<lambda>d. reservedOk info (DiskSpec.Path d) (StorageReserved d)) disks"
    proof (rule nth_equalityI)
      show "length (map (\<lambda>e. reservedOk info (DiskSpec.Path (snd e)) (StorageReserved (snd e))) vd)
          = length (map (\<lambda>d. reservedOk info (DiskSpec.Path d) (StorageReserved d)) disks)"
        using len by simp
    next
      fix i assume "i < length (map (\<lambda>e. reservedOk info (DiskSpec.Path (snd e)) (StorageReserved (snd e))) vd)"
      then have i: "i < length vd" "i < length disks" using len by simp_all
      have "DiskSpec.Path (snd (vd ! i)) = DiskSpec.Path (disks ! i)"
        using paths i by (metis comp_apply nth_map)
      moreover have "StorageReserved (snd (vd ! i)) = StorageReserved (disks ! i)"
        using res i by (metis comp_apply nth_map)
      ultimately show "map (\<lambda>e. reservedOk info (DiskSpec.Path (snd e)) (StorageReserved (snd e))) vd ! i
          = map (\<lambda>d. reservedOk info (DiskSpec.Path d) (StorageReserved d)) disks ! i"
        using i by simp
    qed
    moreover have "list_all id (map (\<lambda>d. reservedOk info (DiskSpec.Path d) (StorageReserved d)) disks)"
      using assms(3) unfolding validInput_def by (simp add: list_all_iff)
    ultimately have "list_all id (map (\<lambda>e. reservedOk info (DiskSpec.Path (snd e)) (StorageReserved (snd e))) vd)"
      by simp
    then show ?thesis by (simp add: list_all_iff)
  qed
  show ?thesis
    using r len names dn dp fs rs assms(3) unfolding validInput_def
    by (intro exI[of _ vd] exI[of _ w1]) simp
qed

theorem C1_witness:
  "answers (ex_GetDiskInfo ex_info) ex_info
   \<and> ex_json [ex_diskA, ex_diskB] ''annotation'' = Inr [ex_diskA, ex_diskB]
   \<and> validInput ex_info ex_ValidateTags [ex_diskA, ex_diskB]
   \<and> (\<exists>validDisks w1.
     CreateDisksFromAnnotation (ex_json [ex_diskA, ex_diskB]) (ex_GetDiskInfo ex_info)
        ex_ValidateTags ''annotation'' 0 = (Inr validDisks, w1)
     \<and> length validDisks = 2
     \<and> map (Some \<circ> fst) validDisks = [Some ''default-disk-F1'', Some ''default-disk-F2'']
     \<and> distinct (map fst validDisks)
     \<and> distinct (map (DiskSpec.Path \<circ> snd) validDisks)
     \<and> None \<notin> set (map (fsidOf ex_info \<circ> DiskSpec.Path \<circ> snd) validDisks)
     \<and> distinct (map (fsidOf ex_info \<circ> DiskSpec.Path \<circ> snd) validDisks)
     \<and> list_all (\<lambda>e. reservedOk ex_info (DiskSpec.Path (snd e)) (StorageReserved (snd e)))
           validDisks)"
proof -
  have h1: "answers (ex_GetDiskInfo ex_info) ex_info"
    by (simp add: answers_def ex_GetDiskInfo_def)
  have h2: "ex_json [ex_diskA, ex_diskB] ''annotation'' = Inr [ex_diskA, ex_diskB]"
    by (simp add: ex_json_def)
  have h3: "validInput ex_info ex_ValidateTags [ex_diskA, ex_diskB]"
    by (simp add: validInput_def fsidOf_def nameOf_def reservedOk_def tagsOk_def ex_info_def
        ex_diskA_def ex_diskB_def ex_ValidateTags_def DefaultDiskPrefix_def)
  have n: "map (nameOf ex_info) [ex_diskA, ex_diskB]
      = [Some ''default-disk-F1'', Some ''default-disk-F2'']"
    by (simp add: nameOf_def ex_info_def ex_diskA_def ex_diskB_def DefaultDiskPrefix_def)
  show ?thesis
    using C1_valid_annotation_accepted[where json_Unmarshal = "ex_json [ex_diskA, ex_diskB]"
        and annotation = "''annotation''" and w = 0, OF h1 h2 h3] h1 h2 h3
    unfolding n by (simp add: numeral_2_eq_2)
qed

subsection \<open>Rejected annotations\<close>

lemma loop_error_or_valid:
  assumes "answers GetDiskInfo info" "\<not> validInput info ValidateTags disks"
  shows "\<exists>e w1. CreateDisks_loop GetDiskInfo ValidateTags ([], Map.empty) disks w = (Inl e, w1)"
proof (cases "CreateDisks_loop GetDiskInfo ValidateTags ([], Map.empty) disks w")
  case (Pair r w1)
  show ?thesis
  proof (cases r)
    case (Inl e)
    with Pair show ?thesis by blast
  next
    case (Inr st1)
    with Pair loop_Inr_D[OF assms(1)] assms(2) show ?thesis by blast
  qed
qed

text \<open>
  The same for a filesystem query of any kind, which may answer a path differently from
  call to call: when the loop accepts all the entries, the paths are non-empty and
  distinct, and the answers the query gave, one entry after the other, are filesystems
  with distinct ids, within whose bounds the reservations lie, and give distinct names.
\<close>

lemma body_Inr_run:
  "CreateDisks_body GetDiskInfo ValidateTags (vd, ef) d w = (Inr st1, w1) \<longleftrightarrow>
     (\<exists>di tags. DiskSpec.Path d \<noteq> ''''
        \<and> GetDiskInfo w (DiskSpec.Path d) = (Inr di, w1)
        \<and> DiskSpec.Path d \<notin> set (map (DiskSpec.Path \<circ> snd) vd)
        \<and> ef (Fsid di) = None
        \<and> 0 \<le> StorageReserved d \<and> StorageReserved d \<le> StorageMaximum di
        \<and> ValidateTags (Tags d) = Inr tags
        \<and> map_of vd (if Name d = '''' then DefaultDiskPrefix @ Fsid di else Name d) = None
        \<and> st1 = (vd @ [(if Name d = '''' then DefaultDiskPrefix @ Fsid di else Name d,
                         DiskSpec.truncate (d\<lparr>Tags := tags\<rparr>))],
                  ef(Fsid di \<mapsto> DiskSpec.Path d)))"
proof -
  obtain r w' where g: "GetDiskInfo w (DiskSpec.Path d) = (r, w')"
    by (cases "GetDiskInfo w (DiskSpec.Path d)")
  show ?thesis
    unfolding CreateDisks_body_def Let_def
    using g
    by (auto simp: list_ex_paths update_fresh simp del: set_map split: sum.splits option.splits)
qed

lemma loop_run_D:
  "CreateDisks_loop GetDiskInfo ValidateTags (vd, ef) disks w = (Inr st1, w1)
    \<Longrightarrow> validRun ValidateTags disks (lookups GetDiskInfo w disks)
        \<and> freshRun vd ef disks (lookups GetDiskInfo w disks)"
proof (induction disks arbitrary: vd ef w)
  case Nil
  then show ?case by (simp add: validRun_def freshRun_def)
next
  case (Cons d ds)
  from Cons.prems obtain st2 w2 where
    b: "CreateDisks_body GetDiskInfo ValidateTags (vd, ef) d w = (Inr st2, w2)"
    and l: "CreateDisks_loop GetDiskInfo ValidateTags st2 ds w2 = (Inr st1, w1)"
    by (auto split: prod.splits sum.splits)
  from b obtain di tags where
    p: "DiskSpec.Path d \<noteq> ''''"
    and g: "GetDiskInfo w (DiskSpec.Path d) = (Inr di, w2)"
    and pf: "DiskSpec.Path d \<notin> set (map (DiskSpec.Path \<circ> snd) vd)"
    and ff: "ef (Fsid di) = None"
    and r: "0 \<le> StorageReserved d" "StorageReserved d \<le> StorageMaximum di"
    and t: "ValidateTags (Tags d) = Inr tags"
    and nf: "map_of vd (if Name d = '''' then DefaultDiskPrefix @ Fsid di else Name d) = None"
    and st2: "st2 = (vd @ [(if Name d = '''' then DefaultDiskPrefix @ Fsid di else Name d,
                         DiskSpec.truncate (d\<lparr>Tags := tags\<rparr>))],
                  ef(Fsid di \<mapsto> DiskSpec.Path d))"
    unfolding body_Inr_run by blast
  define name where "name = (if Name d = '''' then DefaultDiskPrefix @ Fsid di else Name d)"
  define e where "e = (name, DiskSpec.truncate (d\<lparr>Tags := tags\<rparr>))"
  define rs where "rs = lookups GetDiskInfo w2 ds"
  have lk: "lookups GetDiskInfo w (d # ds) = Inr di # rs"
    using g by (simp add: rs_def)
  have st2': "st2 = (vd @ [e], ef(Fsid di \<mapsto> DiskSpec.Path d))"
    using st2 by (simp add: e_def name_def)
  have "validRun ValidateTags ds rs
      \<and> freshRun (vd @ [e]) (ef(Fsid di \<mapsto> DiskSpec.Path d)) ds rs"
    unfolding rs_def by (rule Cons.IH[OF l[unfolded st2']])
  then have v: "validRun ValidateTags ds rs"
    and fr: "freshRun (vd @ [e]) (ef(Fsid di \<mapsto> DiskSpec.Path d)) ds rs"
    by blast+
  have ep: "DiskSpec.Path (snd e) = DiskSpec.Path d"
    by (simp add: e_def DiskSpec.truncate_def)
  have a1: "fsidOfAnswer (Inr di) = Some (Fsid di)" by (simp add: fsidOfAnswer_def)
  have a2: "nameOfAnswer d (Inr di) = Some name" by (simp add: nameOfAnswer_def name_def)
  have a3: "reservedOkAnswer d (Inr di)" using r by (simp add: reservedOkAnswer_def)
  have a4: "tagsOk ValidateTags d" using t by (simp add: tagsOk_def)
  have pn: "DiskSpec.Path d \<notin> set (map DiskSpec.Path ds)"
    using fr ep unfolding freshRun_def by auto
  have fn: "Some (Fsid di) \<notin> set (map fsidOfAnswer rs)"
  proof
    assume "Some (Fsid di) \<in> set (map fsidOfAnswer rs)"
    then have "(ef(Fsid di \<mapsto> DiskSpec.Path d)) (Fsid di) = None"
      using fr unfolding freshRun_def by blast
    then show False by simp
  qed
  have nn: "Some name \<notin> set (map2 nameOfAnswer ds rs)"
  proof
    assume "Some name \<in> set (map2 nameOfAnswer ds rs)"
    then have "map_of (vd @ [e]) name = None"
      using fr unfolding freshRun_def by blast
    then show False by (simp add: e_def map_add_def split: option.splits)
  qed
  have valid: "validRun ValidateTags (d # ds) (Inr di # rs)"
    using v p pn fn nn a1 a2 a3 a4 unfolding validRun_def by simp
  have fresh: "freshRun vd ef (d # ds) (Inr di # rs)"
    unfolding freshRun_def
  proof (intro conjI ballI allI impI)
    fix d' assume "d' \<in> set (d # ds)"
    then show "DiskSpec.Path d' \<notin> set (map (DiskSpec.Path \<circ> snd) vd)"
      using pf fr unfolding freshRun_def by auto
  next
    fix f assume "Some f \<in> set (map fsidOfAnswer (Inr di # rs))"
    then have "f = Fsid di \<or> Some f \<in> set (map fsidOfAnswer rs)"
      using a1 by auto
    then show "ef f = None"
    proof
      assume "f = Fsid di" then show ?thesis using ff by simp
    next
      assume "Some f \<in> set (map fsidOfAnswer rs)"
      then have "(ef(Fsid di \<mapsto> DiskSpec.Path d)) f = None"
        using fr unfolding freshRun_def by blast
      then show ?thesis by (simp split: if_splits)
    qed
  next
    fix n assume "Some n \<in> set (map2 nameOfAnswer (d # ds) (Inr di # rs))"
    then have "n = name \<or> Some n \<in> set (map2 nameOfAnswer ds rs)"
      using a2 by auto
    then show "map_of vd n = None"
    proof
      assume "n = name" then show ?thesis using nf by (simp add: name_def)
    next
      assume "Some n \<in> set (map2 nameOfAnswer ds rs)"
      then have "map_of (vd @ [e]) n = None"
        using fr unfolding freshRun_def by blast
      then show ?thesis by (simp add: map_add_def split: option.splits)
    qed
  qed
  show ?case using valid fresh unfolding lk by blast
qed

lemma lookups_answers:
  "answers GetDiskInfo info \<Longrightarrow> lookups GetDiskInfo w disks = map (info \<circ> DiskSpec.Path) disks"
  by (induction disks arbitrary: w) (simp_all add: answers_def)

lemma loop_error_of_run:
  assumes "\<not> validRun ValidateTags disks (lookups GetDiskInfo w disks)"
  shows "\<exists>e w1. CreateDisks_loop GetDiskInfo ValidateTags ([], Map.empty) disks w = (Inl e, w1)"
proof (cases "CreateDisks_loop GetDiskInfo ValidateTags ([], Map.empty) disks w")
  case (Pair r w1)
  show ?thesis
  proof (cases r)
    case (Inl e)
    with Pair show ?thesis by blast
  next
    case (Inr st1)
    with Pair loop_run_D[of GetDiskInfo ValidateTags "[]" Map.empty disks w st1 w1] assms
    show ?thesis by blast
  qed
qed

text \<open>
  C2. \<^verbatim>\<open>CreateDisksFromAnnotation\<close> returns an error, and with it no mapping at all,
  whenever the annotation does not decode, an entry has an empty path, two entries have
  the same path, two entries resolve to the same filesystem id, a reservation is outside
  \<open>0 \<dots> StorageMaximum\<close> of its filesystem, or two entries get the same name; and also
  when the query fails for an entry or the tags of an entry are refused. This holds for
  every filesystem query, also one whose answer for a path changes from call to call:
  the second conjunct takes the answers that the query gives when it is asked for the
  paths of the entries in their order (\<open>lookups\<close>), and the violations of the paths alone
  need no answer at all. For a query that answers a path the same way at every call the
  third conjunct reads the same in terms of what the paths resolve to. The first error
  ends the call: when the loop
  fails on the entries \<open>pre\<close>, the call on \<open>pre @ rest\<close> returns that error and that state
  of the world, whatever \<open>rest\<close> is.
\<close>

theorem C2_violations_rejected:
  "(json1 annotation1 = Inl err
      \<longrightarrow> CreateDisksFromAnnotation json1 GetDiskInfo1 ValidateTags1 annotation1 w0
          = (Inl (Wrapf err ''failed to unmarshal the default disks annotation''), w0))
   \<and> (json3 annotation3 = Inr disks3
       \<and> ('''' \<in> set (map DiskSpec.Path disks3)
          \<or> \<not> distinct (map DiskSpec.Path disks3)
          \<or> None \<in> set (map fsidOfAnswer (lookups GetDiskInfo3 w4 disks3))
          \<or> \<not> distinct (map fsidOfAnswer (lookups GetDiskInfo3 w4 disks3))
          \<or> \<not> list_all2 reservedOkAnswer disks3 (lookups GetDiskInfo3 w4 disks3)
          \<or> \<not> list_all (tagsOk ValidateTags3) disks3
          \<or> \<not> distinct (map2 nameOfAnswer disks3 (lookups GetDiskInfo3 w4 disks3)))
      \<longrightarrow> (\<exists>e w1. CreateDisksFromAnnotation json3 GetDiskInfo3 ValidateTags3 annotation3 w4
                   = (Inl e, w1)))
   \<and> (answers GetDiskInfo info \<and> json_Unmarshal annotation = Inr disks
       \<and> ('''' \<in> set (map DiskSpec.Path disks)
          \<or> \<not> distinct (map DiskSpec.Path disks)
          \<or> \<not> distinct (map (fsidOf info \<circ> DiskSpec.Path) disks)
          \<or> \<not> list_all (\<lambda>d. reservedOk info (DiskSpec.Path d) (StorageReserved d)) disks
          \<or> \<not> distinct (map (nameOf info) disks))
      \<longrightarrow> (\<exists>e w1. CreateDisksFromAnnotation json_Unmarshal GetDiskInfo ValidateTags annotation w
                   = (Inl e, w1)))
   \<and> (json2 annotation2 = Inr (pre @ rest)
       \<and> CreateDisks_loop GetDiskInfo2 ValidateTags2 ([], Map.empty) pre w2 = (Inl e2, w3)
      \<longrightarrow> CreateDisksFromAnnotation json2 GetDiskInfo2 ValidateTags2 annotation2 w2
          = (Inl e2, w3))"
proof (intro conjI impI)
  assume "json1 annotation1 = Inl err"
  then show "CreateDisksFromAnnotation json1 GetDiskInfo1 ValidateTags1 annotation1 w0
      = (Inl (Wrapf err ''failed to unmarshal the default disks annotation''), w0)"
    by (simp add: CreateDisksFromAnnotation_def UnmarshalToDisks_def)
next
  assume a: "json3 annotation3 = Inr disks3
       \<and> ('''' \<in> set (map DiskSpec.Path disks3)
          \<or> \<not> distinct (map DiskSpec.Path disks3)
          \<or> None \<in> set (map fsidOfAnswer (lookups GetDiskInfo3 w4 disks3))
          \<or> \<not> distinct (map fsidOfAnswer (lookups GetDiskInfo3 w4 disks3))
          \<or> \<not> list_all2 reservedOkAnswer disks3 (lookups GetDiskInfo3 w4 disks3)
          \<or> \<not> list_all (tagsOk ValidateTags3) disks3
          \<or> \<not> distinct (map2 nameOfAnswer disks3 (lookups GetDiskInfo3 w4 disks3)))"
  then have "\<not> validRun ValidateTags3 disks3 (lookups GetDiskInfo3 w4 disks3)"
    unfolding validRun_def by blast
  then obtain e w1 where
    "CreateDisks_loop GetDiskInfo3 ValidateTags3 ([], Map.empty) disks3 w4 = (Inl e, w1)"
    using loop_error_of_run[of ValidateTags3 disks3 GetDiskInfo3 w4] by blast
  with a have "CreateDisksFromAnnotation json3 GetDiskInfo3 ValidateTags3 annotation3 w4
      = (Inl e, w1)"
    by (simp add: CreateDisksFromAnnotation_def UnmarshalToDisks_def)
  then show "\<exists>e w1. CreateDisksFromAnnotation json3 GetDiskInfo3 ValidateTags3 annotation3 w4
      = (Inl e, w1)"
    by blast
next
  assume a: "answers GetDiskInfo info \<and> json_Unmarshal annotation = Inr disks
       \<and> ('''' \<in> set (map DiskSpec.Path disks)
          \<or> \<not> distinct (map DiskSpec.Path disks)
          \<or> \<not> distinct (map (fsidOf info \<circ> DiskSpec.Path) disks)
          \<or> \<not> list_all (\<lambda>d. reservedOk info (DiskSpec.Path d) (StorageReserved d)) disks
          \<or> \<not> distinct (map (nameOf info) disks))"
  then have "\<not> validInput info ValidateTags disks"
    unfolding validInput_def by blast
  moreover from a have "answers GetDiskInfo info" by blast
  ultimately obtain e w1 where
    "CreateDisks_loop GetDiskInfo ValidateTags ([], Map.empty) disks w = (Inl e, w1)"
    using loop_error_or_valid[of GetDiskInfo info ValidateTags disks w] by blast
  with a have "CreateDisksFromAnnotation json_Unmarshal GetDiskInfo ValidateTags annotation w
      = (Inl e, w1)"
    by (simp add: CreateDisksFromAnnotation_def UnmarshalToDisks_def)
  then show "\<exists>e w1. CreateDisksFromAnnotation json_Unmarshal GetDiskInfo ValidateTags annotation w
      = (Inl e, w1)"
    by blast
next
  assume a: "json2 annotation2 = Inr (pre @ rest)
       \<and> CreateDisks_loop GetDiskInfo2 ValidateTags2 ([], Map.empty) pre w2 = (Inl e2, w3)"
  then have "CreateDisks_loop GetDiskInfo2 ValidateTags2 ([], Map.empty) (pre @ rest) w2
      = (Inl e2, w3)"
    by (simp add: loop_append)
  with a show "CreateDisksFromAnnotation json2 GetDiskInfo2 ValidateTags2 annotation2 w2
      = (Inl e2, w3)"
    by (simp add: CreateDisksFromAnnotation_def UnmarshalToDisks_def)
qed

theorem C2_witness:
  "CreateDisksFromAnnotation (ex_json [ex_diskA, ex_diskB]) (ex_GetDiskInfo ex_info)
      ex_ValidateTags ''not json'' (0::nat)
     = (Inl (Wrapf (External ''unexpected end of JSON input'')
               ''failed to unmarshal the default disks annotation''), 0)
   \<and> \<not> distinct (map DiskSpec.Path [ex_diskA, ex_diskA])
   \<and> (\<exists>e w1. CreateDisksFromAnnotation (ex_json [ex_diskA, ex_diskA])
          (ex_GetDiskInfo_changing ex_info) ex_ValidateTags ''annotation'' 0 = (Inl e, w1))
   \<and> CreateDisksFromAnnotation (ex_json [ex_diskA, ex_diskA])
          (ex_GetDiskInfo_changing ex_info) ex_ValidateTags ''annotation'' 0
      = (Inl (DuplicateDiskPath ''/mnt/a''), 2)
   \<and> answers (ex_GetDiskInfo ex_info_bind) ex_info_bind
   \<and> \<not> distinct (map (fsidOf ex_info_bind \<circ> DiskSpec.Path) [ex_diskA, ex_diskB])
   \<and> (\<exists>e w1. CreateDisksFromAnnotation (ex_json [ex_diskA, ex_diskB])
          (ex_GetDiskInfo ex_info_bind) ex_ValidateTags ''annotation'' 0 = (Inl e, w1))
   \<and> CreateDisks_loop (ex_GetDiskInfo ex_info_bind) ex_ValidateTags ([], Map.empty)
        [ex_diskA, ex_diskB] 0
      = (Inl (SameFilesystem ''/mnt/b'' ''/mnt/a'' ''F1''), 2)
   \<and> CreateDisksFromAnnotation (ex_json ([ex_diskA, ex_diskB] @ [ex_diskA]))
          (ex_GetDiskInfo ex_info_bind) ex_ValidateTags ''annotation'' 0
      = (Inl (SameFilesystem ''/mnt/b'' ''/mnt/a'' ''F1''), 2)"
proof -
  have h1: "ex_json [ex_diskA, ex_diskB] ''not json'' = Inl (External ''unexpected end of JSON input'')"
    by (simp add: ex_json_def)
  have h2: "answers (ex_GetDiskInfo ex_info_bind) ex_info_bind"
    by (simp add: answers_def ex_GetDiskInfo_def)
  have h3: "ex_json [ex_diskA, ex_diskB] ''annotation'' = Inr [ex_diskA, ex_diskB]"
    by (simp add: ex_json_def)
  have h4: "\<not> distinct (map (fsidOf ex_info_bind \<circ> DiskSpec.Path) [ex_diskA, ex_diskB])"
    by (simp add: fsidOf_def ex_info_bind_def ex_diskA_def ex_diskB_def)
  have h5: "ex_json ([ex_diskA, ex_diskB] @ [ex_diskA]) ''annotation''
      = Inr ([ex_diskA, ex_diskB] @ [ex_diskA])"
    by (simp add: ex_json_def)
  have h6: "CreateDisks_loop (ex_GetDiskInfo ex_info_bind) ex_ValidateTags ([], Map.empty)
        [ex_diskA, ex_diskB] 0
      = (Inl (SameFilesystem ''/mnt/b'' ''/mnt/a'' ''F1''), 2)"
    by (simp add: CreateDisks_body_def ex_GetDiskInfo_def ex_info_bind_def ex_diskA_def
        ex_diskB_def ex_ValidateTags_def DefaultDiskPrefix_def DiskSpec.truncate_def)
  have h7: "ex_json [ex_diskA, ex_diskA] ''annotation'' = Inr [ex_diskA, ex_diskA]"
    by (simp add: ex_json_def)
  have h8: "\<not> distinct (map DiskSpec.Path [ex_diskA, ex_diskA])"
    by simp
  have h9: "CreateDisksFromAnnotation (ex_json [ex_diskA, ex_diskA])
          (ex_GetDiskInfo_changing ex_info) ex_ValidateTags ''annotation'' 0
      = (Inl (DuplicateDiskPath ''/mnt/a''), 2)"
    by (simp add: CreateDisksFromAnnotation_def UnmarshalToDisks_def ex_json_def
        CreateDisks_body_def ex_GetDiskInfo_changing_def ex_info_def ex_diskA_def
        ex_ValidateTags_def DefaultDiskPrefix_def DiskSpec.truncate_def)
  show ?thesis
    using C2_violations_rejected[where ?json1.0 = "ex_json [ex_diskA, ex_diskB]"
        and ?annotation1.0 = "''not json''"
        and err = "External ''unexpected end of JSON input''"
        and ?GetDiskInfo1.0 = "ex_GetDiskInfo ex_info" and ?ValidateTags1.0 = ex_ValidateTags
        and ?w0.0 = "0::nat"
        and ?json3.0 = "ex_json [ex_diskA, ex_diskA]" and ?annotation3.0 = "''annotation''"
        and ?disks3.0 = "[ex_diskA, ex_diskA]"
        and ?GetDiskInfo3.0 = "ex_GetDiskInfo_changing ex_info"
        and ?ValidateTags3.0 = ex_ValidateTags and ?w4.0 = "0::nat"
        and GetDiskInfo = "ex_GetDiskInfo ex_info_bind" and info = ex_info_bind
        and json_Unmarshal = "ex_json [ex_diskA, ex_diskB]" and annotation = "''annotation''"
        and disks = "[ex_diskA, ex_diskB]" and ValidateTags = ex_ValidateTags and w = "0::nat"
        and ?json2.0 = "ex_json ([ex_diskA, ex_diskB] @ [ex_diskA])"
        and ?annotation2.0 = "''annotation''" and pre = "[ex_diskA, ex_diskB]"
        and rest = "[ex_diskA]" and ?GetDiskInfo2.0 = "ex_GetDiskInfo ex_info_bind"
        and ?ValidateTags2.0 = ex_ValidateTags and ?w2.0 = "0::nat"
        and ?e2.0 = "SameFilesystem ''/mnt/b'' ''/mnt/a'' ''F1''" and ?w3.0 = "2::nat"]
      h1 h2 h3 h4 h5 h6 h7 h8 h9
    by blast
qed

subsection \<open>Duplicate paths and the filesystem query\<close>

text \<open>
  C3, as amended. The duplicate-path check on an entry comes after the filesystem query
  for that entry, not before it. When the entries before it were accepted and the entry
  repeats the path of one of them, \<^verbatim>\<open>GetDiskInfo\<close> is called for the repeated entry, in
  the state of the world the earlier entries left; if the query fails the call returns
  the error of the query, and only if it succeeds the call fails with the
  duplicate-disk-path error. The next theorem but one is the counterexample to the claim
  as it was stated: with a query that answers once and then fails, two entries with the
  same path give the error of the query; with a query that always answers they give the
  duplicate-disk-path error after two queries.
\<close>

theorem C3_lookup_precedes_duplicate_path_check:
  assumes "json_Unmarshal annotation = Inr (pre @ disk # rest)"
    and "CreateDisks_loop GetDiskInfo ValidateTags ([], Map.empty) pre w = (Inr st1, w1)"
    and "DiskSpec.Path disk \<in> set (map DiskSpec.Path pre)"
  shows "CreateDisksFromAnnotation json_Unmarshal GetDiskInfo ValidateTags annotation w =
     (case GetDiskInfo w1 (DiskSpec.Path disk) of
        (Inl err, w2) \<Rightarrow> (Inl err, w2)
      | (Inr diskInfo, w2) \<Rightarrow> (Inl (DuplicateDiskPath (DiskSpec.Path disk)), w2))"
proof -
  from loop_paths[OF assms(2)] assms(3) have
    p: "DiskSpec.Path disk \<in> set (map (DiskSpec.Path \<circ> snd) (fst st1))"
    and n: "DiskSpec.Path disk \<noteq> ''''"
    by auto
  have b: "CreateDisks_body GetDiskInfo ValidateTags st1 disk w1 =
     (case GetDiskInfo w1 (DiskSpec.Path disk) of
        (Inl err, w2) \<Rightarrow> (Inl err, w2)
      | (Inr diskInfo, w2) \<Rightarrow> (Inl (DuplicateDiskPath (DiskSpec.Path disk)), w2))"
    by (rule body_duplicate_path[OF p n])
  have "CreateDisks_loop GetDiskInfo ValidateTags ([], Map.empty) (pre @ disk # rest) w =
     (case GetDiskInfo w1 (DiskSpec.Path disk) of
        (Inl err, w2) \<Rightarrow> (Inl err, w2)
      | (Inr diskInfo, w2) \<Rightarrow> (Inl (DuplicateDiskPath (DiskSpec.Path disk)), w2))"
    unfolding loop_append assms(2) using b
    by (auto split: prod.splits sum.splits)
  then show ?thesis
    using assms(1)
    by (auto simp: CreateDisksFromAnnotation_def UnmarshalToDisks_def split: prod.splits sum.splits)
qed

theorem C3_witness:
  "ex_json ([ex_diskA] @ ex_diskA # [ex_diskB]) ''annotation'' = Inr ([ex_diskA] @ ex_diskA # [ex_diskB])
   \<and> DiskSpec.Path ex_diskA \<in> set (map DiskSpec.Path [ex_diskA])
   \<and> snd (CreateDisks_loop (ex_GetDiskInfo ex_info) ex_ValidateTags ([], Map.empty) [ex_diskA] 0) = 1
   \<and> CreateDisksFromAnnotation (ex_json ([ex_diskA] @ ex_diskA # [ex_diskB]))
        (ex_GetDiskInfo ex_info) ex_ValidateTags ''annotation'' 0
      = (Inl (DuplicateDiskPath ''/mnt/a''), 2)"
proof -
  have h1: "ex_json ([ex_diskA] @ ex_diskA # [ex_diskB]) ''annotation''
      = Inr ([ex_diskA] @ ex_diskA # [ex_diskB])"
    by (simp add: ex_json_def)
  have h2: "CreateDisks_loop (ex_GetDiskInfo ex_info) ex_ValidateTags ([], Map.empty) [ex_diskA] 0
      = (Inr ([(''default-disk-F1'', DiskSpec.truncate ex_diskA)], [''F1'' \<mapsto> ''/mnt/a'']), 1)"
    by (simp add: CreateDisks_body_def ex_GetDiskInfo_def ex_info_def ex_diskA_def
        ex_ValidateTags_def DefaultDiskPrefix_def DiskSpec.truncate_def)
  have h3: "DiskSpec.Path ex_diskA \<in> set (map DiskSpec.Path [ex_diskA])"
    by simp
  have g: "ex_GetDiskInfo ex_info 1 (DiskSpec.Path ex_diskA)
      = (Inr \<lparr>Fsid = ''F1'', DiskInfo.Path = ''/mnt/a'', StorageMaximum = 1000,
                StorageAvailable = 800\<rparr>, 2)"
    by (simp add: ex_GetDiskInfo_def ex_info_def ex_diskA_def)
  have p: "DiskSpec.Path ex_diskA = ''/mnt/a''"
    by (simp add: ex_diskA_def)
  show ?thesis
    using C3_lookup_precedes_duplicate_path_check[where json_Unmarshal
          = "ex_json ([ex_diskA] @ ex_diskA # [ex_diskB])"
        and annotation = "''annotation''", OF h1 h2 h3] h1 h2 h3
    unfolding g by (simp add: p)
qed

text \<open>
  The counterexample to C3 as it was stated: the query is made for the repeated entry,
  and its error comes before the duplicate-path error.
\<close>

theorem C3_counterexample:
  "CreateDisksFromAnnotation (ex_json [ex_diskA, ex_diskA]) (ex_GetDiskInfo_once ex_info)
       ex_ValidateTags ''annotation'' 0
     = (Inl (External ''input/output error''), 2)
   \<and> CreateDisksFromAnnotation (ex_json [ex_diskA, ex_diskA]) (ex_GetDiskInfo ex_info)
       ex_ValidateTags ''annotation'' 0
     = (Inl (DuplicateDiskPath ''/mnt/a''), 2)"
  by (simp add: CreateDisksFromAnnotation_def UnmarshalToDisks_def ex_json_def
      CreateDisks_body_def ex_GetDiskInfo_def ex_GetDiskInfo_once_def ex_info_def ex_diskA_def
      ex_ValidateTags_def DefaultDiskPrefix_def DiskSpec.truncate_def)

subsection \<open>Checksum names\<close>

lemma matchItems_noBegin:
  "BeginText \<notin> set items \<Longrightarrow> matchItems items b s = matchItems items False s"
proof (induction items arbitrary: s b)
  case Nil
  then show ?case by simp
next
  case (Cons item items)
  then show ?case by (cases item) (auto split: list.splits)
qed

lemma matchItems_Literals:
  "BeginText \<notin> set items \<Longrightarrow>
   matchItems (map Literal p @ items) b s
     \<longleftrightarrow> (\<exists>rest. s = p @ rest \<and> matchItems items False rest)"
proof (induction p arbitrary: s b)
  case Nil
  then show ?case using matchItems_noBegin[of items b s] by simp
next
  case (Cons c p)
  show ?case
  proof (cases s)
    case Nil
    then show ?thesis by simp
  next
    case (Cons x xs)
    then show ?thesis using Cons.IH[OF Cons.prems, of False xs] by auto
  qed
qed

lemma matchItems_Classes:
  "BeginText \<notin> set items \<Longrightarrow>
   matchItems (replicate n (CharClass cs) @ items) b s
     \<longleftrightarrow> (\<exists>h rest. s = h @ rest \<and> length h = n \<and> list_all (\<lambda>c. c \<in> set cs) h
            \<and> matchItems items False rest)"
proof (induction n arbitrary: s b)
  case 0
  then show ?case using matchItems_noBegin[of items b s] by simp
next
  case (Suc n)
  show ?case
  proof (cases s)
    case Nil
    then show ?thesis by simp
  next
    case (Cons x xs)
    have "matchItems (replicate (Suc n) (CharClass cs) @ items) b s
        \<longleftrightarrow> x \<in> set cs \<and> matchItems (replicate n (CharClass cs) @ items) False xs"
      using Cons by simp
    also have "\<dots> \<longleftrightarrow> x \<in> set cs \<and> (\<exists>h rest. xs = h @ rest \<and> length h = n
        \<and> list_all (\<lambda>c. c \<in> set cs) h \<and> matchItems items False rest)"
      using Suc.IH[OF Suc.prems, of False xs] by simp
    also have "\<dots> \<longleftrightarrow> (\<exists>h rest. s = h @ rest \<and> length h = Suc n
        \<and> list_all (\<lambda>c. c \<in> set cs) h \<and> matchItems items False rest)"
    proof
      assume "x \<in> set cs \<and> (\<exists>h rest. xs = h @ rest \<and> length h = n
        \<and> list_all (\<lambda>c. c \<in> set cs) h \<and> matchItems items False rest)"
      then obtain h rest where "x \<in> set cs" "xs = h @ rest" "length h = n"
        "list_all (\<lambda>c. c \<in> set cs) h" "matchItems items False rest" by blast
      then have "s = (x # h) @ rest \<and> length (x # h) = Suc n
        \<and> list_all (\<lambda>c. c \<in> set cs) (x # h) \<and> matchItems items False rest"
        using Cons by simp
      then show "\<exists>h rest. s = h @ rest \<and> length h = Suc n
        \<and> list_all (\<lambda>c. c \<in> set cs) h \<and> matchItems items False rest" by blast
    next
      assume "\<exists>h rest. s = h @ rest \<and> length h = Suc n
        \<and> list_all (\<lambda>c. c \<in> set cs) h \<and> matchItems items False rest"
      then obtain h rest where h: "s = h @ rest" "length h = Suc n"
        "list_all (\<lambda>c. c \<in> set cs) h" "matchItems items False rest" by blast
      then obtain y h' where "h = y # h'" by (cases h) auto
      with h Cons show "x \<in> set cs \<and> (\<exists>h rest. xs = h @ rest \<and> length h = n
        \<and> list_all (\<lambda>c. c \<in> set cs) h \<and> matchItems items False rest)" by auto
    qed
    finally show ?thesis .
  qed
qed

lemma matchAnywhere_Begin_False: "matchAnywhere (BeginText # items) False s = False"
  by (induction s) auto

lemma matchAnywhere_Begin: "matchAnywhere (BeginText # items) True s = matchItems items True s"
  by (cases s) (auto simp: matchAnywhere_Begin_False)

lemma ValidateEngineImageChecksumName_iff:
  "ValidateEngineImageChecksumName name
     \<longleftrightarrow> (\<exists>h. name = engineImagePrefix @ h \<and> length h = ImageChecksumNameLength
            \<and> list_all (\<lambda>c. c \<in> set hexDigits) h)"
proof -
  have 1: "BeginText \<notin> set [EndText]" by simp
  have 2: "BeginText \<notin> set (replicate ImageChecksumNameLength (CharClass hexDigits) @ [EndText])"
    by auto
  have "ValidateEngineImageChecksumName name
      \<longleftrightarrow> matchItems (map Literal engineImagePrefix
            @ replicate ImageChecksumNameLength (CharClass hexDigits) @ [EndText]) True name"
    by (simp add: ValidateEngineImageChecksumName_def regexp_MatchString_def
        checksumNamePattern_def matchAnywhere_Begin)
  also have "\<dots> \<longleftrightarrow> (\<exists>rest. name = engineImagePrefix @ rest
      \<and> matchItems (replicate ImageChecksumNameLength (CharClass hexDigits) @ [EndText]) False rest)"
    by (rule matchItems_Literals[OF 2])
  also have "\<dots> \<longleftrightarrow> (\<exists>rest. name = engineImagePrefix @ rest
      \<and> (\<exists>h rest'. rest = h @ rest' \<and> length h = ImageChecksumNameLength
           \<and> list_all (\<lambda>c. c \<in> set hexDigits) h \<and> matchItems [EndText] False rest'))"
    by (simp only: matchItems_Classes[OF 1])
  also have "\<dots> \<longleftrightarrow> (\<exists>h. name = engineImagePrefix @ h \<and> length h = ImageChecksumNameLength
            \<and> list_all (\<lambda>c. c \<in> set hexDigits) h)"
    by auto
  finally show ?thesis .
qed

text \<open>
  C5. Each checksum name is its prefix (\<^verbatim>\<open>ei-\<close>, \<^verbatim>\<open>imi-\<close>, \<^verbatim>\<open>smi-\<close>) followed by the first
  8 characters of the checksum of the seed with its white space trimmed, for a checksum
  of at least 8 characters; it is a function of the trimmed seed alone, so the same seed
  gives the same name. \<^verbatim>\<open>ValidateEngineImageChecksumName\<close> holds exactly for \<^verbatim>\<open>ei-\<close>
  followed by exactly 8 hexadecimal digits; it takes no checksum function, so it cannot
  compare the digits with the checksum of a seed.
\<close>

theorem C5_checksum_names:
  "(ImageChecksumNameLength \<le> length (GetStringChecksum (strings_TrimSpace seed)) \<longrightarrow>
      GetEngineImageChecksumName GetStringChecksum seed
        = Some (''ei-'' @ take 8 (GetStringChecksum (strings_TrimSpace seed)))
      \<and> GetInstanceManagerImageChecksumName GetStringChecksum seed
        = Some (''imi-'' @ take 8 (GetStringChecksum (strings_TrimSpace seed)))
      \<and> GetShareManagerImageChecksumName GetStringChecksum seed
        = Some (''smi-'' @ take 8 (GetStringChecksum (strings_TrimSpace seed))))
   \<and> (strings_TrimSpace seed1 = strings_TrimSpace seed2 \<longrightarrow>
      GetEngineImageChecksumName GetStringChecksum seed1
        = GetEngineImageChecksumName GetStringChecksum seed2
      \<and> GetInstanceManagerImageChecksumName GetStringChecksum seed1
        = GetInstanceManagerImageChecksumName GetStringChecksum seed2
      \<and> GetShareManagerImageChecksumName GetStringChecksum seed1
        = GetShareManagerImageChecksumName GetStringChecksum seed2)
   \<and> ValidateEngineImageChecksumName name
      = (\<exists>h. name = ''ei-'' @ h \<and> length h = 8
            \<and> list_all (\<lambda>c. c \<in> set ''abcdefABCDEF0123456789'') h)"
proof (intro conjI impI)
  show "ValidateEngineImageChecksumName name
      = (\<exists>h. name = ''ei-'' @ h \<and> length h = 8
            \<and> list_all (\<lambda>c. c \<in> set ''abcdefABCDEF0123456789'') h)"
    using ValidateEngineImageChecksumName_iff[of name]
    by (simp only: engineImagePrefix_def ImageChecksumNameLength_def hexDigits_def)
qed (simp_all add: GetEngineImageChecksumName_def GetInstanceManagerImageChecksumName_def
    GetShareManagerImageChecksumName_def checksumHead_def Let_def engineImagePrefix_def
    instanceManagerImagePrefix_def shareManagerImagePrefix_def ImageChecksumNameLength_def)

theorem C5_witness:
  "ImageChecksumNameLength \<le> length (ex_checksum (strings_TrimSpace '' longhornio/engine:v1 ''))
   \<and> GetEngineImageChecksumName ex_checksum '' longhornio/engine:v1 '' = Some ''ei-0a1Bl0a1''
   \<and> GetInstanceManagerImageChecksumName ex_checksum '' longhornio/engine:v1 ''
      = Some ''imi-0a1Bl0a1''
   \<and> GetShareManagerImageChecksumName ex_checksum '' longhornio/engine:v1 ''
      = Some ''smi-0a1Bl0a1''
   \<and> strings_TrimSpace '' longhornio/engine:v1 '' = strings_TrimSpace ''longhornio/engine:v1''
   \<and> GetEngineImageChecksumName ex_checksum '' longhornio/engine:v1 ''
      = GetEngineImageChecksumName ex_checksum ''longhornio/engine:v1''
   \<and> ValidateEngineImageChecksumName ''ei-0a1Bl0a1'' = False
   \<and> ValidateEngineImageChecksumName ''ei-00000000'' = True"
proof -
  have t: "strings_TrimSpace '' longhornio/engine:v1 '' = ''longhornio/engine:v1''"
    by code_simp
  have t2: "strings_TrimSpace ''longhornio/engine:v1'' = ''longhornio/engine:v1''"
    by code_simp
  have c: "ex_checksum ''longhornio/engine:v1'' = ''0a1Bl0a1Bl0a1Bl0a1Bl0a1Bl0a1Bl0a1Bl0a1Bl''"
    by code_simp
  have v1: "\<not> (\<exists>h. ''ei-0a1Bl0a1'' = ''ei-'' @ h \<and> length h = 8
            \<and> list_all (\<lambda>c. c \<in> set ''abcdefABCDEF0123456789'') h)"
    by auto
  have v2: "\<exists>h. ''ei-00000000'' = ''ei-'' @ h \<and> length h = 8
            \<and> list_all (\<lambda>c. c \<in> set ''abcdefABCDEF0123456789'') h"
    by (rule exI[of _ "''00000000''"]) simp
  show ?thesis
    using C5_checksum_names[of ex_checksum "'' longhornio/engine:v1 ''"
        "'' longhornio/engine:v1 ''" "''longhornio/engine:v1''" "''ei-0a1Bl0a1''"]
      C5_checksum_names[of ex_checksum "'' longhornio/engine:v1 ''"
        "'' longhornio/engine:v1 ''" "''longhornio/engine:v1''" "''ei-00000000''"]
      v1 v2
    unfolding t t2 c by (simp add: ImageChecksumNameLength_def)
qed

subsection \<open>Labels\<close>

lemmas label_keys =
  GetLonghornLabelKey_def GetLonghornLabelComponentKey_def LonghornLabelKeyPrefix_def
  LonghornLabelManagedBy_def LonghornLabelNode_def LonghornLabelDiskUUID_def
  LonghornLabelInstanceManagerType_def LonghornLabelInstanceManagerImage_def
  LonghornLabelVolume_def LonghornLabelShareManager_def LonghornLabelShareManagerImage_def
  LonghornLabelCronJobTask_def LonghornLabelBackingImageDataSource_def
  LonghornLabelBackingImageManager_def LonghornLabelInstanceManager_def
  LonghornLabelEngineImage_def LonghornLabelBackingImage_def

lemma GetInstanceManagerLabels_Some:
  assumes "GetInstanceManagerLabels GetStringChecksum node img managerType = Some labels"
  shows "labels (GetLonghornLabelKey LonghornLabelNode)
           = (if node = '''' then None else Some node)
       \<and> labels (GetLonghornLabelKey LonghornLabelInstanceManagerImage)
           = (if img = '''' then None
              else GetInstanceManagerImageChecksumName GetStringChecksum
                     (GetImageCanonicalName img))
       \<and> (labels (GetLonghornLabelKey LonghornLabelInstanceManagerImage) = None) = (img = '''')
       \<and> labels (GetLonghornLabelKey LonghornLabelInstanceManagerType) = Some managerType"
  using assms
  by (auto simp: GetInstanceManagerLabels_def GetBaseLabelsForSystemManagedComponent_def Let_def
      label_keys split: if_splits)

lemma GetShareManagerLabels_Some:
  assumes "GetShareManagerLabels GetStringChecksum name img = Some labels"
  shows "labels (GetLonghornLabelKey LonghornLabelShareManager)
           = (if name = '''' then None else Some name)
       \<and> labels (GetLonghornLabelKey LonghornLabelShareManagerImage)
           = (if img = '''' then None
              else GetShareManagerImageChecksumName GetStringChecksum (GetImageCanonicalName img))
       \<and> (labels (GetLonghornLabelKey LonghornLabelShareManagerImage) = None) = (img = '''')"
  using assms
  by (auto simp: GetShareManagerLabels_def GetBaseLabelsForSystemManagedComponent_def Let_def
      label_keys split: if_splits)

text \<open>
  C6, as amended. In every label-derivation function that takes an attribute, a key
  that the source writes under a test for the empty string is in the label set exactly
  when its attribute is not empty, and then holds it: the node id and the disk UUID
  (\<^verbatim>\<open>GetInstanceManagerLabels\<close>, \<^verbatim>\<open>GetBackingImageManagerLabels\<close>,
  \<^verbatim>\<open>GetBackingImageDataSourceLabels\<close>), the backing-image-data-source name, the
  share-manager name of \<^verbatim>\<open>GetShareManagerLabels\<close>, and the instance-manager and
  share-manager image keys, which hold the checksum name of the image. Every other
  kind-specific key is written without a test, so it is always in the label set, with the
  empty string as value when the attribute is empty: the instance-manager type of
  \<^verbatim>\<open>GetInstanceManagerLabels\<close>, the volume name and the job task of \<^verbatim>\<open>GetCronJobLabels\<close>
  and \<^verbatim>\<open>GetCronJobPodLabels\<close>, the engine-image name of \<^verbatim>\<open>GetEngineImageLabels\<close> and
  \<^verbatim>\<open>GetEIDaemonSetLabelSelector\<close>, the share-manager name of
  \<^verbatim>\<open>GetShareManagerInstanceLabel\<close> and the volume name of \<^verbatim>\<open>GetVolumeLabels\<close>.
\<close>

theorem C6_label_keys:
  "GetBackingImageManagerLabels nodeID diskUUID (GetLonghornLabelKey LonghornLabelNode)
     = (if nodeID = '''' then None else Some nodeID)
   \<and> GetBackingImageManagerLabels nodeID diskUUID (GetLonghornLabelKey LonghornLabelDiskUUID)
     = (if diskUUID = '''' then None else Some diskUUID)
   \<and> GetBackingImageDataSourceLabels name nodeID diskUUID
        (GetLonghornLabelKey LonghornLabelBackingImageDataSource)
     = (if name = '''' then None else Some name)
   \<and> GetBackingImageDataSourceLabels name nodeID diskUUID (GetLonghornLabelKey LonghornLabelNode)
     = (if nodeID = '''' then None else Some nodeID)
   \<and> GetBackingImageDataSourceLabels name nodeID diskUUID
        (GetLonghornLabelKey LonghornLabelDiskUUID)
     = (if diskUUID = '''' then None else Some diskUUID)
   \<and> (GetInstanceManagerLabels GetStringChecksum node img managerType = Some imLabels \<longrightarrow>
        imLabels (GetLonghornLabelKey LonghornLabelNode)
          = (if node = '''' then None else Some node)
        \<and> imLabels (GetLonghornLabelKey LonghornLabelInstanceManagerImage)
          = (if img = '''' then None
             else GetInstanceManagerImageChecksumName GetStringChecksum
                    (GetImageCanonicalName img))
        \<and> (imLabels (GetLonghornLabelKey LonghornLabelInstanceManagerImage) = None) = (img = '''')
        \<and> imLabels (GetLonghornLabelKey LonghornLabelInstanceManagerType) = Some managerType)
   \<and> (GetShareManagerLabels GetStringChecksum smName smImage = Some smLabels \<longrightarrow>
        smLabels (GetLonghornLabelKey LonghornLabelShareManager)
          = (if smName = '''' then None else Some smName)
        \<and> smLabels (GetLonghornLabelKey LonghornLabelShareManagerImage)
          = (if smImage = '''' then None
             else GetShareManagerImageChecksumName GetStringChecksum
                    (GetImageCanonicalName smImage))
        \<and> (smLabels (GetLonghornLabelKey LonghornLabelShareManagerImage) = None)
          = (smImage = ''''))
   \<and> GetCronJobLabels volumeName job LonghornLabelVolume = Some volumeName
   \<and> GetCronJobLabels volumeName job (GetLonghornLabelKey LonghornLabelCronJobTask)
     = Some (Task job)
   \<and> GetCronJobPodLabels volumeName job LonghornLabelVolume = Some volumeName
   \<and> GetCronJobPodLabels volumeName job (GetLonghornLabelKey LonghornLabelCronJobTask)
     = Some (Task job)
   \<and> GetEngineImageLabels engineImageName (GetLonghornLabelKey LonghornLabelEngineImage)
     = Some engineImageName
   \<and> GetEIDaemonSetLabelSelector engineImageName (GetLonghornLabelKey LonghornLabelEngineImage)
     = Some engineImageName
   \<and> GetShareManagerInstanceLabel smName (GetLonghornLabelKey LonghornLabelShareManager)
     = Some smName
   \<and> GetVolumeLabels volumeName LonghornLabelVolume = Some volumeName"
proof -
  have bim: "GetBackingImageManagerLabels nodeID diskUUID (GetLonghornLabelKey LonghornLabelNode)
       = (if nodeID = '''' then None else Some nodeID)
     \<and> GetBackingImageManagerLabels nodeID diskUUID (GetLonghornLabelKey LonghornLabelDiskUUID)
       = (if diskUUID = '''' then None else Some diskUUID)"
    by (simp add: GetBackingImageManagerLabels_def GetBaseLabelsForSystemManagedComponent_def
        Let_def label_keys)
  have bids: "GetBackingImageDataSourceLabels name nodeID diskUUID
          (GetLonghornLabelKey LonghornLabelBackingImageDataSource)
       = (if name = '''' then None else Some name)
     \<and> GetBackingImageDataSourceLabels name nodeID diskUUID (GetLonghornLabelKey LonghornLabelNode)
       = (if nodeID = '''' then None else Some nodeID)
     \<and> GetBackingImageDataSourceLabels name nodeID diskUUID
          (GetLonghornLabelKey LonghornLabelDiskUUID)
       = (if diskUUID = '''' then None else Some diskUUID)"
    by (simp add: GetBackingImageDataSourceLabels_def GetBaseLabelsForSystemManagedComponent_def
        Let_def label_keys)
  have cron: "GetCronJobLabels volumeName job LonghornLabelVolume = Some volumeName
     \<and> GetCronJobLabels volumeName job (GetLonghornLabelKey LonghornLabelCronJobTask)
       = Some (Task job)
     \<and> GetCronJobPodLabels volumeName job LonghornLabelVolume = Some volumeName
     \<and> GetCronJobPodLabels volumeName job (GetLonghornLabelKey LonghornLabelCronJobTask)
       = Some (Task job)"
    by (simp add: GetCronJobLabels_def GetCronJobPodLabels_def
        GetBaseLabelsForSystemManagedComponent_def Let_def label_keys)
  have plain: "GetEngineImageLabels engineImageName (GetLonghornLabelKey LonghornLabelEngineImage)
       = Some engineImageName
     \<and> GetEIDaemonSetLabelSelector engineImageName (GetLonghornLabelKey LonghornLabelEngineImage)
       = Some engineImageName
     \<and> GetShareManagerInstanceLabel smName (GetLonghornLabelKey LonghornLabelShareManager)
       = Some smName
     \<and> GetVolumeLabels volumeName LonghornLabelVolume = Some volumeName"
    by (simp add: GetEngineImageLabels_def GetEIDaemonSetLabelSelector_def
        GetShareManagerInstanceLabel_def GetVolumeLabels_def
        GetBaseLabelsForSystemManagedComponent_def Let_def label_keys)
  show ?thesis
    using bim bids cron plain
      GetInstanceManagerLabels_Some[of GetStringChecksum node img managerType imLabels]
      GetShareManagerLabels_Some[of GetStringChecksum smName smImage smLabels]
    by blast
qed

theorem C6_witness:
  "GetInstanceManagerLabels ex_checksum ''node-1'' ''longhornio/im:v1'' ''engine''
     = Some [GetLonghornLabelKey LonghornLabelManagedBy \<mapsto> ControlPlaneName,
             GetLonghornLabelComponentKey \<mapsto> LonghornLabelInstanceManager,
             GetLonghornLabelKey LonghornLabelInstanceManagerType \<mapsto> ''engine'',
             GetLonghornLabelKey LonghornLabelNode \<mapsto> ''node-1'',
             GetLonghornLabelKey LonghornLabelInstanceManagerImage \<mapsto> ''imi-0a1Bl0a1'']
   \<and> [GetLonghornLabelKey LonghornLabelManagedBy \<mapsto> ControlPlaneName,
       GetLonghornLabelComponentKey \<mapsto> LonghornLabelInstanceManager,
       GetLonghornLabelKey LonghornLabelInstanceManagerType \<mapsto> ''engine'',
       GetLonghornLabelKey LonghornLabelNode \<mapsto> ''node-1'',
       GetLonghornLabelKey LonghornLabelInstanceManagerImage \<mapsto> ''imi-0a1Bl0a1'']
        (GetLonghornLabelKey LonghornLabelInstanceManagerImage)
     = GetInstanceManagerImageChecksumName ex_checksum (GetImageCanonicalName ''longhornio/im:v1'')
   \<and> GetShareManagerLabels ex_checksum '''' ''''
     = Some [GetLonghornLabelKey LonghornLabelManagedBy \<mapsto> ControlPlaneName,
             GetLonghornLabelComponentKey \<mapsto> LonghornLabelShareManager]
   \<and> [GetLonghornLabelKey LonghornLabelManagedBy \<mapsto> ControlPlaneName,
       GetLonghornLabelComponentKey \<mapsto> LonghornLabelShareManager]
        (GetLonghornLabelKey LonghornLabelShareManager) = None
   \<and> [GetLonghornLabelKey LonghornLabelManagedBy \<mapsto> ControlPlaneName,
       GetLonghornLabelComponentKey \<mapsto> LonghornLabelShareManager]
        (GetLonghornLabelKey LonghornLabelShareManagerImage) = None
   \<and> GetBackingImageManagerLabels '''' ''uuid-1'' (GetLonghornLabelKey LonghornLabelNode) = None
   \<and> GetBackingImageManagerLabels '''' ''uuid-1'' (GetLonghornLabelKey LonghornLabelDiskUUID)
     = Some ''uuid-1''
   \<and> GetVolumeLabels '''' LonghornLabelVolume = Some ''''"
proof -
  have c: "GetInstanceManagerImageChecksumName ex_checksum
      (GetImageCanonicalName ''longhornio/im:v1'') = Some ''imi-0a1Bl0a1''"
    by code_simp
  have im: "GetInstanceManagerLabels ex_checksum ''node-1'' ''longhornio/im:v1'' ''engine''
     = Some [GetLonghornLabelKey LonghornLabelManagedBy \<mapsto> ControlPlaneName,
             GetLonghornLabelComponentKey \<mapsto> LonghornLabelInstanceManager,
             GetLonghornLabelKey LonghornLabelInstanceManagerType \<mapsto> ''engine'',
             GetLonghornLabelKey LonghornLabelNode \<mapsto> ''node-1'',
             GetLonghornLabelKey LonghornLabelInstanceManagerImage \<mapsto> ''imi-0a1Bl0a1'']"
    by (simp add: GetInstanceManagerLabels_def GetBaseLabelsForSystemManagedComponent_def Let_def
        c)
  have sm: "GetShareManagerLabels ex_checksum '''' ''''
     = Some [GetLonghornLabelKey LonghornLabelManagedBy \<mapsto> ControlPlaneName,
             GetLonghornLabelComponentKey \<mapsto> LonghornLabelShareManager]"
    by (simp add: GetShareManagerLabels_def GetBaseLabelsForSystemManagedComponent_def Let_def)
  show ?thesis
    using C6_label_keys[where nodeID = "''''" and diskUUID = "''uuid-1''"
        and GetStringChecksum = ex_checksum and node = "''node-1''"
        and img = "''longhornio/im:v1''" and managerType = "''engine''"
        and imLabels = "[GetLonghornLabelKey LonghornLabelManagedBy \<mapsto> ControlPlaneName,
             GetLonghornLabelComponentKey \<mapsto> LonghornLabelInstanceManager,
             GetLonghornLabelKey LonghornLabelInstanceManagerType \<mapsto> ''engine'',
             GetLonghornLabelKey LonghornLabelNode \<mapsto> ''node-1'',
             GetLonghornLabelKey LonghornLabelInstanceManagerImage \<mapsto> ''imi-0a1Bl0a1'']"
        and smName = "''''" and smImage = "''''"
        and smLabels = "[GetLonghornLabelKey LonghornLabelManagedBy \<mapsto> ControlPlaneName,
             GetLonghornLabelComponentKey \<mapsto> LonghornLabelShareManager]"
        and volumeName = "''''"]
      im sm
    by simp
qed

text \<open>
  The counterexample to C6 as it was stated: for an empty volume name, an empty task,
  an empty instance-manager type, an empty engine-image name and an empty share-manager
  name the keys that are written without a test are present, with the empty string as
  value.
\<close>

theorem C6_counterexample:
  "GetCronJobLabels '''' \<lparr>Task = ''''\<rparr> LonghornLabelVolume = Some ''''
   \<and> GetCronJobLabels '''' \<lparr>Task = ''''\<rparr> (GetLonghornLabelKey LonghornLabelCronJobTask) = Some ''''
   \<and> GetCronJobPodLabels '''' \<lparr>Task = ''''\<rparr> LonghornLabelVolume = Some ''''
   \<and> GetCronJobPodLabels '''' \<lparr>Task = ''''\<rparr> (GetLonghornLabelKey LonghornLabelCronJobTask)
     = Some ''''
   \<and> map_option (\<lambda>labels. labels (GetLonghornLabelKey LonghornLabelInstanceManagerType))
        (GetInstanceManagerLabels ex_checksum ''node-1'' '''' '''') = Some (Some '''')
   \<and> GetEngineImageLabels '''' (GetLonghornLabelKey LonghornLabelEngineImage) = Some ''''
   \<and> GetEIDaemonSetLabelSelector '''' (GetLonghornLabelKey LonghornLabelEngineImage) = Some ''''
   \<and> GetShareManagerInstanceLabel '''' (GetLonghornLabelKey LonghornLabelShareManager) = Some ''''
   \<and> GetVolumeLabels '''' LonghornLabelVolume = Some ''''"
  by (simp add: GetCronJobLabels_def GetCronJobPodLabels_def GetInstanceManagerLabels_def
      GetEngineImageLabels_def GetEIDaemonSetLabelSelector_def GetShareManagerInstanceLabel_def
      GetVolumeLabels_def GetBaseLabelsForSystemManagedComponent_def Let_def label_keys)

subsection \<open>Machine arithmetic\<close>

text \<open>The wrap-around of a 64-bit value: the identity within the range, and one
  period off just outside it.\<close>

lemma wrap64_id: "is_int64 x \<Longrightarrow> wrap64 x = x"
  unfolding is_int64_def wrap64_def by (simp add: mod_pos_pos_trivial)

lemma wrap64_above: "2 ^ 63 \<le> x \<Longrightarrow> x < 2 ^ 64 \<Longrightarrow> wrap64 x = x - 2 ^ 64"
proof -
  assume a: "2 ^ 63 \<le> x" "x < 2 ^ 64"
  have "(x + 2 ^ 63) mod 2 ^ 64 = (x + 2 ^ 63 - 2 ^ 64) mod (2 ^ 64 :: int)"
    by (metis mod_diff_right_eq mod_self diff_zero)
  also have "\<dots> = x + 2 ^ 63 - 2 ^ 64"
    using a by (intro mod_pos_pos_trivial) simp_all
  finally show ?thesis unfolding wrap64_def by simp
qed

lemma wrap64_below: "- (2 ^ 64) \<le> x \<Longrightarrow> x < - (2 ^ 63) \<Longrightarrow> wrap64 x = x + 2 ^ 64"
proof -
  assume a: "- (2 ^ 64) \<le> x" "x < - (2 ^ 63)"
  have "(x + 2 ^ 63) mod 2 ^ 64 = (x + 2 ^ 63 + 2 ^ 64) mod (2 ^ 64 :: int)"
    by (metis mod_add_self2)
  also have "\<dots> = x + 2 ^ 63 + 2 ^ 64"
    using a by (intro mod_pos_pos_trivial) simp_all
  finally show ?thesis unfolding wrap64_def by simp
qed

lemma wrap64_sum_range:
  assumes "is_int64 a" "is_int64 b"
  shows "(\<not> (wrap64 (a + b) < 0 \<or> wrap64 (a + b) > 40))
     \<longleftrightarrow> (0 \<le> a + b \<and> a + b \<le> 40) \<or> a + b \<le> 40 - 2 ^ 64"
proof -
  consider "is_int64 (a + b)" | "2 ^ 63 \<le> a + b" "a + b < 2 ^ 64"
    | "- (2 ^ 64) \<le> a + b" "a + b < - (2 ^ 63)"
    using assms unfolding is_int64_def by fastforce
  then show ?thesis
  proof cases
    case 1
    then show ?thesis using wrap64_id[OF 1] unfolding is_int64_def by auto
  next
    case 2
    then show ?thesis using wrap64_above[OF 2] by auto
  next
    case 3
    then show ?thesis using wrap64_below[OF 3] by auto
  qed
qed

subsection \<open>Option validators\<close>

lemma digitValue_nonneg: "isDigit c \<Longrightarrow> 0 \<le> digitValue c"
  unfolding isDigit_def digitValue_def by auto

lemma parseUintDigits_nonneg:
  "0 \<le> n \<Longrightarrow> parseUintDigits n s = Inr un \<Longrightarrow> 0 \<le> un"
proof (induction s arbitrary: n)
  case Nil
  then show ?case by simp
next
  case (Cons c cs)
  from Cons.prems(2) have d: "isDigit c"
    and r: "parseUintDigits (n * 10 + digitValue c) cs = Inr un"
    by (auto split: if_splits)
  have "0 \<le> n * 10 + digitValue c" using Cons.prems(1) digitValue_nonneg[OF d] by simp
  from Cons.IH[OF this r] show ?case .
qed

lemma strconv_Atoi_range: "strconv_Atoi s = Inr a \<Longrightarrow> is_int64 a"
  unfolding strconv_Atoi_def Let_def is_int64_def
  by (auto split: if_splits sum.splits dest: parseUintDigits_nonneg[rotated])

text \<open>\<^verbatim>\<open>ValidateReplicaCount\<close> accepts exactly the counts from 1 to 20.\<close>

lemma ValidateReplicaCount_iff: "ValidateReplicaCount n = None \<longleftrightarrow> 1 \<le> n \<and> n \<le> 20"
  by (auto simp: ValidateReplicaCount_def)

text \<open>
  \<^verbatim>\<open>ValidateCPUReservationValues\<close> accepts exactly the pairs that both parse and whose sum
  is within \<open>0 \<dots> 40\<close>, and besides them the pairs whose sum is so far below the range
  of a 64-bit integer that it wraps around into \<open>0 \<dots> 40\<close>.
\<close>

lemma ValidateCPUReservationValues_iff:
  "ValidateCPUReservationValues e r = None \<longleftrightarrow>
     (\<exists>a b. strconv_Atoi e = Inr a \<and> strconv_Atoi r = Inr b
        \<and> ((0 \<le> a + b \<and> a + b \<le> 40) \<or> a + b \<le> 40 - 2 ^ 64))"
proof (cases "strconv_Atoi e")
  case (Inl err)
  then show ?thesis by (simp add: ValidateCPUReservationValues_def)
next
  case a: (Inr a)
  show ?thesis
  proof (cases "strconv_Atoi r")
    case (Inl err)
    then show ?thesis using a by (simp add: ValidateCPUReservationValues_def)
  next
    case b: (Inr b)
    have "ValidateCPUReservationValues e r = None
        \<longleftrightarrow> \<not> (wrap64 (a + b) < 0 \<or> wrap64 (a + b) > 40)"
      using a b by (simp add: ValidateCPUReservationValues_def)
    then show ?thesis
      using wrap64_sum_range[OF strconv_Atoi_range[OF a] strconv_Atoi_range[OF b]] a b
      by simp
  qed
qed

text \<open>
  C7, at the input where the code leaves it. Both strings are the least 64-bit integer;
  each parses, their sum is \<open>- 2^64\<close>, far outside \<open>0 \<dots> 40\<close>, yet the sum the code
  computes wraps around to 0 and the pair is accepted. The examples of the claim behave
  as it says: \<^verbatim>\<open>("20","20")\<close> is accepted and \<^verbatim>\<open>("30","20")\<close> rejected, replica counts
  0 and 21 are rejected and 1 and 20 accepted.
\<close>

theorem C7_failing_input:
  "strconv_Atoi ''-9223372036854775808'' = Inr (- 9223372036854775808)
   \<and> ValidateCPUReservationValues ''-9223372036854775808'' ''-9223372036854775808'' = None
   \<and> ValidateCPUReservationValues ''20'' ''20'' = None
   \<and> ValidateCPUReservationValues ''30'' ''20'' = Some (CPUSumOutOfRange 30 20)
   \<and> ValidateReplicaCount 0 = Some ReplicaCountOutOfRange
   \<and> ValidateReplicaCount 21 = Some ReplicaCountOutOfRange
   \<and> ValidateReplicaCount 1 = None \<and> ValidateReplicaCount 20 = None"
proof -
  have a: "strconv_Atoi ''-9223372036854775808'' = Inr (- 9223372036854775808)"
    by (simp add: strconv_Atoi_def isDigit_def digitValue_def)
  have b: "strconv_Atoi ''20'' = Inr 20" "strconv_Atoi ''30'' = Inr 30"
    by (simp_all add: strconv_Atoi_def isDigit_def digitValue_def)
  show ?thesis
    by (simp add: ValidateCPUReservationValues_def ValidateReplicaCount_def wrap64_def a b)
qed

subsection \<open>The default disk\<close>

lemma sdiv_nonneg: "0 \<le> k \<Longrightarrow> k sdiv 100 = k div (100::int)"
  by (simp add: signed_divide_int_def sgn_if)

text \<open>
  When the directory is created and the filesystem answers, \<^verbatim>\<open>CreateDefaultDisk\<close>
  returns one entry, named by the default prefix and the filesystem id, with the path of
  the filesystem, scheduling allowed, no eviction requested, and the reservation that
  the 64-bit product and the truncating division give.
\<close>

lemma CreateDefaultDisk_result:
  assumes "CreateDiskPathReplicaSubdirectory w dataPath = (None, w1)"
    and "GetDiskInfo w1 dataPath = (Inr diskInfo, w2)"
  shows "CreateDefaultDisk CreateDiskPathReplicaSubdirectory GetDiskInfo dataPath w
     = (Inr [(DefaultDiskPrefix @ Fsid diskInfo,
             \<lparr>DiskSpec.Path = DiskInfo.Path diskInfo, AllowScheduling = True,
              EvictionRequested = False,
              StorageReserved = wrap64 (StorageMaximum diskInfo * 30) sdiv 100,
              Tags = []\<rparr>)], w2)"
  using assms by (simp add: CreateDefaultDisk_def)

text \<open>That reservation is 30% of the maximum, rounded down, as long as thirty times the
  maximum fits 64 bits.\<close>

lemma default_reservation_in_range:
  assumes "0 \<le> storageMaximum" "storageMaximum \<le> 307445734561825860"
  shows "wrap64 (storageMaximum * 30) sdiv 100 = storageMaximum * 30 div 100"
proof -
  have "is_int64 (storageMaximum * 30)" using assms unfolding is_int64_def by simp
  then have "wrap64 (storageMaximum * 30) = storageMaximum * 30" by (rule wrap64_id)
  then show ?thesis using assms(1) by (simp add: sdiv_nonneg)
qed

text \<open>
  C8, at the input where the code leaves it. On a filesystem of \<open>2^62\<close> bytes the
  product \<^verbatim>\<open>StorageMaximum * 30\<close> wraps around and the reservation of the default disk is
  negative, where 30% of the maximum is 1383505805528216371.
\<close>

theorem C8_failing_input:
  "CreateDefaultDisk ex_mkdir (ex_GetDiskInfo ex_info_huge) ''/var/lib/longhorn'' 0
     = (Inr [(''default-disk-F9'',
             \<lparr>DiskSpec.Path = ''/var/lib/longhorn'', AllowScheduling = True,
              EvictionRequested = False, StorageReserved = - 92233720368547758,
              Tags = []\<rparr>)], 2)
   \<and> (2 ^ 62 * 30 div 100 :: int) = 1383505805528216371"
  by (simp add: CreateDefaultDisk_def ex_mkdir_def ex_GetDiskInfo_def ex_info_huge_def
      DefaultDiskPrefix_def wrap64_def signed_divide_int_def)


end
